theory Spec2Isabelle
  imports Main "HOL-Library.Word"
begin

section \<open>The vApp container helper package and the two vApp resources\<close>

text \<open>
  A shallow embedding of \<^verbatim>\<open>vsphere/internal/helper/vappcontainer/vappcontainer_helper.go\<close>,
  of the \<^verbatim>\<open>vsphere_vapp_container\<close> resource and of the \<^verbatim>\<open>vsphere_vapp_entity\<close>
  resource. The entity resource file holds three successive revisions of the resource; the
  embedding follows the last one (the one that composes the resource ID from the container
  and the target and filters the entity list on delete); the two before it are superseded.

  Every call that leaves the process (the inventory finder, the property collector, the
  vApp methods, and the provider's helpers that are not part of these sources) is answered
  by a field of the record \<open>vsphere\<close> and written to a trace together with the error it
  returned, so that a theorem can say which calls an operation made, in which order and with
  which arguments. Go's \<^verbatim>\<open>if err != nil { return err }\<close> is the bind \<open>seq\<close> of a state and
  error monad; a panic (nil dereference, index out of range, failed type assertion) is a
  failure of its own kind. Logging is left out: it has no effect on a result.
\<close>

subsection \<open>Values of the vSphere API (vim25/types and vim25/mo)\<close>

type_synonym int32 = "32 word"

record ManagedObjectReference =
  Type :: string
  Value :: string

text \<open>
  \<^verbatim>\<open>types.VAppEntityConfigInfo\<close>, with the fields the sources name. \<open>Key\<close> is a pointer
  in the sources (\<^verbatim>\<open>Key: &mor\<close>, \<^verbatim>\<open>*e.Key != vmo\<close>), \<open>DestroyWithParent\<close> and
  \<open>WaitingForGuest\<close> are \<^verbatim>\<open>*bool\<close> (they are filled by \<^verbatim>\<open>structure.GetBoolPtr\<close>):
  \<open>None\<close> is the nil pointer.
\<close>

record VAppEntityConfigInfo =
  Key :: "ManagedObjectReference option"
  DestroyWithParent :: "bool option"
  StartOrder :: int32
  StartAction :: string
  StartDelay :: int32
  StopAction :: string
  StopDelay :: int32
  WaitingForGuest :: "bool option"

record VAppConfigInfo =
  EntityConfig :: "VAppEntityConfigInfo list"

record VAppConfigSpec =
  EntityConfig :: "VAppEntityConfigInfo list"

text \<open>
  A value handed to or read from the flat configuration (\<^verbatim>\<open>interface{}\<close> in
  \<^verbatim>\<open>d.Get\<close> and \<^verbatim>\<open>d.Set\<close>). Integers of every width are carried by their value.
\<close>

datatype val = VString string | VInt int | VBool bool | VNil

text \<open>
  \<^verbatim>\<open>types.ResourceAllocationInfo\<close> and \<^verbatim>\<open>types.ResourceConfigSpec\<close>. Their
  declarations belong to the client library; the sources only read the fields below and pass
  each one to \<^verbatim>\<open>d.Set\<close> as an interface value, which is how they are typed here.
\<close>

record SharesInfo =
  Shares :: val
  Level :: val

record ResourceAllocationInfo =
  Reservation :: val
  ExpandableReservation :: val
  Limit :: val
  Shares :: SharesInfo

record ResourceConfigSpec =
  CpuAllocation :: ResourceAllocationInfo
  MemoryAllocation :: ResourceAllocationInfo

text \<open>
  \<^verbatim>\<open>mo.VirtualApp\<close> embeds \<^verbatim>\<open>mo.ResourcePool\<close>: Go's \<^verbatim>\<open>props.Vm\<close> is
  \<open>Vm (ResourcePool props)\<close> here, \<^verbatim>\<open>props.ResourcePool.ResourcePool\<close> is the list of
  child pools of the embedded pool, and \<^verbatim>\<open>props.ResourcePool.Value\<close> is the field
  \<^verbatim>\<open>Value\<close> the pool inherits from \<^verbatim>\<open>ExtensibleManagedObject\<close>.
\<close>

record mo_ResourcePool =
  Self :: ManagedObjectReference
  ExtensibleManagedObject_Value :: val
  Parent :: ManagedObjectReference
  ResourcePool :: "ManagedObjectReference list"
  Vm :: "ManagedObjectReference list"
  Config :: ResourceConfigSpec

record mo_VirtualApp =
  ResourcePool :: mo_ResourcePool
  VAppConfig :: VAppConfigInfo

record mo_VirtualMachine =
  ManagedEntity :: ManagedObjectReference

text \<open>
  A client-side handle (\<^verbatim>\<open>object.VirtualApp\<close>, \<^verbatim>\<open>object.ResourcePool\<close>,
  \<^verbatim>\<open>object.Folder\<close>, ...): its reference, its inventory path and its name.
\<close>

record object =
  Reference :: ManagedObjectReference
  InventoryPath :: string
  Name :: string

text \<open>What the finder returns for a reference: an interface value with a dynamic type.\<close>

datatype object_Reference = Is_VirtualApp object | Is_Other object

subsection \<open>Errors and panics\<close>

text \<open>
  A Go \<^verbatim>\<open>error\<close> is a fault of the API (one kind of which is the managed object not found
  fault that \<^verbatim>\<open>viapi.IsManagedObjectNotFoundError\<close> recognises) or an error built by
  \<^verbatim>\<open>fmt.Errorf\<close> from a format and its arguments.
\<close>

datatype go_error =
    ManagedObjectNotFound string
  | Fault string
  | Errorf string "fmt_arg list"
and fmt_arg = ArgString string | ArgError go_error

datatype panic = NilDereference | IndexOutOfRange | TypeAssertion

datatype failure = Error go_error | Panic panic

definition IsManagedObjectNotFoundError :: "go_error \<Rightarrow> bool" where
  "IsManagedObjectNotFoundError err =
     (case err of ManagedObjectNotFound _ \<Rightarrow> True | _ \<Rightarrow> False)"

subsection \<open>The flat configuration (schema.ResourceData)\<close>

text \<open>
  The resource ID, the attributes of the configuration and the attributes of the prior
  state (for \<^verbatim>\<open>d.GetChange\<close>). The schema types every attribute, so the type assertion
  after \<^verbatim>\<open>d.Get\<close> is part of the getter; an attribute that is not set reads as the zero
  value of its type.
\<close>

record ResourceData =
  ResourceId :: string
  attrs :: "string \<rightharpoonup> val"
  old_attrs :: "string \<rightharpoonup> val"

definition Get_string :: "ResourceData \<Rightarrow> string \<Rightarrow> string" where
  "Get_string d key = (case attrs d key of Some (VString s) \<Rightarrow> s | _ \<Rightarrow> [])"

definition Get_int :: "ResourceData \<Rightarrow> string \<Rightarrow> int" where
  "Get_int d key = (case attrs d key of Some (VInt i) \<Rightarrow> i | _ \<Rightarrow> 0)"

definition GetOk_string :: "ResourceData \<Rightarrow> string \<Rightarrow> string \<times> bool" where
  "GetOk_string d key = (let s = Get_string d key in (s, s \<noteq> []))"

definition GetChange :: "ResourceData \<Rightarrow> string \<Rightarrow> val option \<times> val option" where
  "GetChange d key = (old_attrs d key, attrs d key)"

text \<open>
  \<^verbatim>\<open>structure.GetBoolPtr\<close> is a helper outside these sources: a pointer to the
  attribute's value, nil when the attribute is not set.
\<close>

definition GetBoolPtr :: "ResourceData \<Rightarrow> string \<Rightarrow> bool option" where
  "GetBoolPtr d key = (case attrs d key of Some (VBool b) \<Rightarrow> Some b | _ \<Rightarrow> None)"

text \<open>Go's conversion \<^verbatim>\<open>int32(x)\<close> of an \<^verbatim>\<open>int\<close> keeps the low 32 bits.\<close>

definition to_int32 :: "int \<Rightarrow> int32" where
  "to_int32 i = word_of_int i"

subsection \<open>The remote side and the trace of calls\<close>

datatype task = Task ManagedObjectReference

datatype tags_client = TagsClient_handle

datatype VSphereFolderType = VSphereFolderTypeVM

text \<open>
  One field for each call that leaves these sources: the answers of the vSphere API and of
  the provider's helpers that the sources call but do not contain (\<^verbatim>\<open>resourcepool\<close>,
  \<^verbatim>\<open>folder\<close>, \<^verbatim>\<open>virtualmachine\<close>, \<^verbatim>\<open>viapi\<close>, the tag functions,
  \<^verbatim>\<open>expandResourcePoolConfigSpec\<close>), and the error, if any, of \<^verbatim>\<open>d.Set\<close>.
\<close>

record vsphere =
  ans_ValidateVirtualCenter :: "go_error option"
  ans_Finder_VirtualApp :: "object option \<Rightarrow> string \<Rightarrow> go_error + object"
  ans_Finder_ObjectReference :: "ManagedObjectReference \<Rightarrow> go_error + object_Reference"
  ans_Properties :: "ManagedObjectReference \<Rightarrow> go_error + mo_VirtualApp"
  ans_CreateVApp ::
    "object \<Rightarrow> string \<Rightarrow> ResourceConfigSpec \<Rightarrow> VAppConfigSpec \<Rightarrow> object \<Rightarrow> go_error + object"
  ans_UpdateConfig :: "object \<Rightarrow> VAppConfigSpec \<Rightarrow> go_error option"
  ans_Destroy :: "object \<Rightarrow> go_error + task"
  ans_Wait :: "task \<Rightarrow> go_error option"
  ans_resourcepool_FromID :: "string \<Rightarrow> go_error + object"
  ans_resourcepool_MoveIntoResourcePool :: "object \<Rightarrow> ManagedObjectReference \<Rightarrow> go_error option"
  ans_folder_FromID :: "string \<Rightarrow> go_error + object"
  ans_folder_FromPath :: "string \<Rightarrow> VSphereFolderType \<Rightarrow> object \<Rightarrow> go_error + object"
  ans_getDatacenter :: "string \<Rightarrow> go_error + object"
  ans_virtualmachine_FromUUID :: "string \<Rightarrow> go_error + object"
  ans_virtualmachine_Properties :: "object \<Rightarrow> go_error + mo_VirtualMachine"
  ans_tagsClientIfDefined :: "go_error + tags_client option"
  ans_TagsClient :: "go_error + tags_client"
  ans_processTagDiff :: "object \<Rightarrow> go_error option"
  ans_readTagsForResource :: "object \<Rightarrow> ResourceData \<Rightarrow> go_error + ResourceData"
  ans_expandResourcePoolConfigSpec :: "ResourceData \<Rightarrow> ResourceConfigSpec"
  ans_Set :: "string \<Rightarrow> val \<Rightarrow> go_error option"

datatype api_call =
    Call_ValidateVirtualCenter
  | Call_Finder_VirtualApp "object option" string
  | Call_Finder_ObjectReference ManagedObjectReference
  | Call_Properties ManagedObjectReference
  | Call_CreateVApp object string ResourceConfigSpec VAppConfigSpec object
  | Call_UpdateConfig object VAppConfigSpec
  | Call_Destroy object
  | Call_Wait task
  | Call_resourcepool_FromID string
  | Call_resourcepool_MoveIntoResourcePool object ManagedObjectReference
  | Call_folder_FromID string
  | Call_folder_FromPath string VSphereFolderType object
  | Call_getDatacenter string
  | Call_virtualmachine_FromUUID string
  | Call_virtualmachine_Properties object
  | Call_tagsClientIfDefined
  | Call_TagsClient
  | Call_processTagDiff object
  | Call_readTagsForResource object

type_synonym trace = "(api_call \<times> go_error option) list"

record state =
  remote :: vsphere
  rd :: ResourceData
  calls :: trace

type_synonym 'a prog = "state \<Rightarrow> (failure + 'a) \<times> state"

definition ret :: "'a \<Rightarrow> 'a prog" where
  "ret x = (\<lambda>s. (Inr x, s))"


definition do_panic :: "panic \<Rightarrow> 'a prog" where
  "do_panic p = (\<lambda>s. (Inl (Panic p), s))"

text \<open>\<open>seq m f\<close>: run \<open>m\<close>; on an error or a panic stop with it, otherwise go on with \<open>f\<close>.\<close>

definition seq :: "'a prog \<Rightarrow> ('a \<Rightarrow> 'b prog) \<Rightarrow> 'b prog" where
  "seq m f = (\<lambda>s. case m s of (Inl e, s') \<Rightarrow> (Inl e, s') | (Inr x, s') \<Rightarrow> f x s')"

text \<open>A call: the answer of the remote side, and one more entry of the trace.\<close>

definition api :: "api_call \<Rightarrow> (vsphere \<Rightarrow> go_error + 'a) \<Rightarrow> 'a prog" where
  "api c ask = (\<lambda>s.
     case ask (remote s) of
       Inl err \<Rightarrow> (Inl (Error err), s\<lparr>calls := calls s @ [(c, Some err)]\<rparr>)
     | Inr x \<Rightarrow> (Inr x, s\<lparr>calls := calls s @ [(c, None)]\<rparr>))"

definition status :: "go_error option \<Rightarrow> go_error + unit" where
  "status r = (case r of Some err \<Rightarrow> Inl err | None \<Rightarrow> Inr ())"

definition get_rd :: "ResourceData prog" where
  "get_rd = (\<lambda>s. (Inr (rd s), s))"

definition SetId :: "string \<Rightarrow> unit prog" where
  "SetId v = (\<lambda>s. (Inr (), s\<lparr>rd := (rd s)\<lparr>ResourceId := v\<rparr>\<rparr>))"

text \<open>\<^verbatim>\<open>d.Set(key, value)\<close>: an error of the schema layer, or the attribute is stored.\<close>

definition Set_attr :: "string \<Rightarrow> val \<Rightarrow> unit prog" where
  "Set_attr key v = (\<lambda>s.
     case ans_Set (remote s) key v of
       Some err \<Rightarrow> (Inl (Error err), s)
     | None \<Rightarrow> (Inr (), s\<lparr>rd := (rd s)\<lparr>attrs := (attrs (rd s))(key \<mapsto> v)\<rparr>\<rparr>))"

text \<open>
  \<^verbatim>\<open>structure.SetBatch\<close> (outside these sources) sets each attribute of the map with
  \<^verbatim>\<open>d.Set\<close> and stops at the first error, which it reports by the attribute's name. Go
  ranges over a map in no fixed order; the entries are taken here in the order the source
  writes them.
\<close>

fun SetBatch :: "(string \<times> val) list \<Rightarrow> unit prog" where
  "SetBatch [] = ret ()"
| "SetBatch ((k, v) # kvs) = (\<lambda>s.
     case Set_attr k v s of
       (Inl (Error err), s') \<Rightarrow>
         (Inl (Error (Errorf ''error setting attribute %q: %s'' [ArgString k, ArgError err])), s')
     | (Inl e, s') \<Rightarrow> (Inl e, s')
     | (Inr u, s') \<Rightarrow> SetBatch kvs s')"

subsection \<open>Strings\<close>

text \<open>
  \<^verbatim>\<open>strings.Split(s, sep)\<close> and \<^verbatim>\<open>strings.SplitN(s, sep, n)\<close> for a separator of one
  byte and \<open>n \<ge> 0\<close>, which is how the sources call them. \<open>index xs i\<close> is \<^verbatim>\<open>xs[i]\<close>: out
  of range it panics.
\<close>

fun Split :: "string \<Rightarrow> char \<Rightarrow> string list" where
  "Split [] sep = [[]]"
| "Split (c # cs) sep =
     (if c = sep then [] # Split cs sep
      else (case Split cs sep of [] \<Rightarrow> [[c]] | p # ps \<Rightarrow> (c # p) # ps))"

fun SplitN :: "string \<Rightarrow> char \<Rightarrow> nat \<Rightarrow> string list" where
  "SplitN s sep 0 = []"
| "SplitN s sep (Suc 0) = [s]"
| "SplitN s sep (Suc (Suc n)) =
     (if sep \<in> set s
      then takeWhile (\<lambda>c. c \<noteq> sep) s # SplitN (tl (dropWhile (\<lambda>c. c \<noteq> sep) s)) sep (Suc n)
      else [s])"

definition index :: "'a list \<Rightarrow> nat \<Rightarrow> 'a prog" where
  "index xs i = (if i < length xs then ret (xs ! i) else do_panic IndexOutOfRange)"

definition put_rd :: "ResourceData \<Rightarrow> unit prog" where
  "put_rd d = (\<lambda>s. (Inr (), s\<lparr>rd := d\<rparr>))"

definition lift :: "failure + 'a \<Rightarrow> 'a prog" where
  "lift r = (\<lambda>s. (r, s))"

subsection \<open>Package vappcontainer\<close>

definition vappcontainer_FromPath :: "string \<Rightarrow> object option \<Rightarrow> object prog" where
  "vappcontainer_FromPath name dc =
     api (Call_Finder_VirtualApp dc name) (\<lambda>r. ans_Finder_VirtualApp r dc name)"

definition vappcontainer_FromID :: "string \<Rightarrow> object prog" where
  "vappcontainer_FromID ident =
     (let ref = \<lparr>Type = ''VirtualApp'', Value = ident\<rparr> in
      seq (api (Call_Finder_ObjectReference ref) (\<lambda>r. ans_Finder_ObjectReference r ref))
        (\<lambda>obj. case obj of
                  Is_VirtualApp va \<Rightarrow> ret va
                | Is_Other other \<Rightarrow> do_panic TypeAssertion))"


text \<open>
  The loop of \<^verbatim>\<open>EntityFromKey\<close>. \<^verbatim>\<open>e.Key.Value\<close> dereferences the pointer
  \<^verbatim>\<open>e.Key\<close>; the element is returned by value (the source returns the address of the loop
  variable, a copy of the element).
\<close>

fun EntityFromKey_range ::
  "string \<Rightarrow> VAppEntityConfigInfo list \<Rightarrow> failure + VAppEntityConfigInfo option" where
  "EntityFromKey_range key [] = Inr None"
| "EntityFromKey_range key (e # es) =
     (case Key e of
        None \<Rightarrow> Inl (Panic NilDereference)
      | Some k \<Rightarrow> if Value k = key then Inr (Some e) else EntityFromKey_range key es)"

definition vappcontainer_EntityFromKey ::
  "string \<Rightarrow> mo_VirtualApp \<Rightarrow> failure + VAppEntityConfigInfo option" where
  "vappcontainer_EntityFromKey key c =
     EntityFromKey_range key (VAppConfigInfo.EntityConfig (VAppConfig c))"

definition vappcontainer_Properties :: "object \<Rightarrow> mo_VirtualApp prog" where
  "vappcontainer_Properties obj =
     api (Call_Properties (Reference obj)) (\<lambda>r. ans_Properties r (Reference obj))"

definition vappcontainer_Create ::
  "object \<Rightarrow> string \<Rightarrow> ResourceConfigSpec \<Rightarrow> VAppConfigSpec \<Rightarrow> object \<Rightarrow> object prog" where
  "vappcontainer_Create va name resSpec vSpec folder =
     api (Call_CreateVApp va name resSpec vSpec folder)
       (\<lambda>r. ans_CreateVApp r va name resSpec vSpec folder)"

definition vappcontainer_Update :: "object \<Rightarrow> VAppConfigSpec \<Rightarrow> unit prog" where
  "vappcontainer_Update va spec =
     api (Call_UpdateConfig va spec) (\<lambda>r. status (ans_UpdateConfig r va spec))"

definition vappcontainer_Delete :: "object \<Rightarrow> unit prog" where
  "vappcontainer_Delete va =
     seq (api (Call_Destroy va) (\<lambda>r. ans_Destroy r va))
       (\<lambda>t. api (Call_Wait t) (\<lambda>r. status (ans_Wait r t)))"

definition vappcontainer_HasChildren :: "object \<Rightarrow> bool prog" where
  "vappcontainer_HasChildren va =
     seq (vappcontainer_Properties va)
       (\<lambda>props.
          if length (Vm (ResourcePool props)) > 0
             \<or> length (mo_ResourcePool.ResourcePool (ResourcePool props)) > 0
          then ret True
          else ret False)"

subsection \<open>Helpers the resources call that lie outside these sources\<close>

definition resourcepool_FromID :: "string \<Rightarrow> object prog" where
  "resourcepool_FromID ident =
     api (Call_resourcepool_FromID ident) (\<lambda>r. ans_resourcepool_FromID r ident)"

definition resourcepool_MoveIntoResourcePool ::
  "object \<Rightarrow> ManagedObjectReference \<Rightarrow> unit prog" where
  "resourcepool_MoveIntoResourcePool p ref =
     api (Call_resourcepool_MoveIntoResourcePool p ref)
       (\<lambda>r. status (ans_resourcepool_MoveIntoResourcePool r p ref))"

definition folder_FromID :: "string \<Rightarrow> object prog" where
  "folder_FromID ident = api (Call_folder_FromID ident) (\<lambda>r. ans_folder_FromID r ident)"

definition folder_FromPath :: "string \<Rightarrow> VSphereFolderType \<Rightarrow> object \<Rightarrow> object prog" where
  "folder_FromPath path ft dc =
     api (Call_folder_FromPath path ft dc) (\<lambda>r. ans_folder_FromPath r path ft dc)"

definition getDatacenter :: "string \<Rightarrow> object prog" where
  "getDatacenter dc = api (Call_getDatacenter dc) (\<lambda>r. ans_getDatacenter r dc)"

definition virtualmachine_FromUUID :: "string \<Rightarrow> object prog" where
  "virtualmachine_FromUUID uuid =
     api (Call_virtualmachine_FromUUID uuid) (\<lambda>r. ans_virtualmachine_FromUUID r uuid)"

definition virtualmachine_Properties :: "object \<Rightarrow> mo_VirtualMachine prog" where
  "virtualmachine_Properties vm =
     api (Call_virtualmachine_Properties vm) (\<lambda>r. ans_virtualmachine_Properties r vm)"

definition tagsClientIfDefined :: "tags_client option prog" where
  "tagsClientIfDefined = api Call_tagsClientIfDefined ans_tagsClientIfDefined"

definition TagsClient :: "tags_client prog" where
  "TagsClient = api Call_TagsClient ans_TagsClient"

definition processTagDiff :: "tags_client \<Rightarrow> object \<Rightarrow> unit prog" where
  "processTagDiff tagsClient obj =
     api (Call_processTagDiff obj) (\<lambda>r. status (ans_processTagDiff r obj))"

definition readTagsForResource :: "tags_client \<Rightarrow> object \<Rightarrow> unit prog" where
  "readTagsForResource tagsClient obj =
     seq get_rd (\<lambda>d.
     seq (api (Call_readTagsForResource obj) (\<lambda>r. ans_readTagsForResource r obj d))
       put_rd)"

definition expandResourcePoolConfigSpec :: "ResourceConfigSpec prog" where
  "expandResourcePoolConfigSpec =
     (\<lambda>s. (Inr (ans_expandResourcePoolConfigSpec (remote s) (rd s)), s))"

subsection \<open>Resource vsphere_vapp_container\<close>

definition resourceVSphereVAppContainerClient :: "unit prog" where
  "resourceVSphereVAppContainerClient =
     api Call_ValidateVirtualCenter (\<lambda>r. status (ans_ValidateVirtualCenter r))"

definition resourceVSphereVAppContainerApplyTags :: "object \<Rightarrow> unit prog" where
  "resourceVSphereVAppContainerApplyTags va =
     seq tagsClientIfDefined
       (\<lambda>tagsClient. case tagsClient of
                        None \<Rightarrow> ret ()
                      | Some c \<Rightarrow> processTagDiff c va)"

text \<open>The error of \<^verbatim>\<open>TagsClient()\<close> is dropped (\<^verbatim>\<open>tagsClient, _ := ...\<close>).\<close>

definition resourceVSphereVAppContainerReadTags :: "object \<Rightarrow> unit prog" where
  "resourceVSphereVAppContainerReadTags va = (\<lambda>s.
     case TagsClient s of
       (Inr tagsClient, s') \<Rightarrow> readTagsForResource tagsClient va s'
     | (Inl (Error err), s') \<Rightarrow> (Inr (), s')
     | (Inl (Panic p), s') \<Rightarrow> (Inl (Panic p), s'))"

definition flattenVAppContainerCPUAllocation :: "ResourceAllocationInfo \<Rightarrow> unit prog" where
  "flattenVAppContainerCPUAllocation obj =
     SetBatch
       [(''cpu_reservation'', Reservation obj),
        (''cpu_expandable'', ExpandableReservation obj),
        (''cpu_limit'', Limit obj),
        (''cpu_shares'', SharesInfo.Shares (Shares obj)),
        (''cpu_share_level'', Level (Shares obj))]"

definition flattenVAppContainerMemoryAllocation :: "ResourceAllocationInfo \<Rightarrow> unit prog" where
  "flattenVAppContainerMemoryAllocation obj =
     SetBatch
       [(''memory_reservation'', Reservation obj),
        (''memory_expandable'', ExpandableReservation obj),
        (''memory_limit'', Limit obj),
        (''memory_shares'', SharesInfo.Shares (Shares obj)),
        (''memory_share_level'', Level (Shares obj))]"

definition flattenVAppContainerConfigSpec :: "ResourceConfigSpec \<Rightarrow> unit prog" where
  "flattenVAppContainerConfigSpec obj =
     seq (flattenVAppContainerMemoryAllocation (MemoryAllocation obj))
       (\<lambda>u. flattenVAppContainerCPUAllocation (CpuAllocation obj))"

definition expandVAppContainerConfigSpec :: "ResourceConfigSpec prog" where
  "expandVAppContainerConfigSpec = expandResourcePoolConfigSpec"

definition resourceVSphereVAppContainerValidateEmpty :: "object \<Rightarrow> unit prog" where
  "resourceVSphereVAppContainerValidateEmpty va = (\<lambda>s.
     case vappcontainer_HasChildren va s of
       (Inl (Error err), s') \<Rightarrow>
         (Inl (Error (Errorf ''error checking contents of resource pool: %s'' [ArgError err])), s')
     | (Inl (Panic p), s') \<Rightarrow> (Inl (Panic p), s')
     | (Inr ne, s') \<Rightarrow>
         if ne
         then (Inl (Error (Errorf
                 ''resource pool %q still has children resources. Please move or remove all items before deleting''
                 [ArgString (InventoryPath va)])), s')
         else (Inr (), s'))"

definition resourceVSphereVAppContainerImport :: "ResourceData list prog" where
  "resourceVSphereVAppContainerImport =
     seq resourceVSphereVAppContainerClient (\<lambda>client.
     seq get_rd (\<lambda>d.
     seq (vappcontainer_FromPath (ResourceId d) None) (\<lambda>va.
     seq (SetId (Value (Reference va))) (\<lambda>u.
     seq get_rd (\<lambda>d'. ret [d'])))))"

definition resourceVSphereVAppContainerCreate :: "unit prog" where
  "resourceVSphereVAppContainerCreate =
     seq resourceVSphereVAppContainerClient (\<lambda>client.
     seq get_rd (\<lambda>d.
     seq (resourcepool_FromID (Get_string d ''parent_resource_pool_id'')) (\<lambda>prp.
     seq expandVAppContainerConfigSpec (\<lambda>rpSpec.
     seq (let (pf, ok) = GetOk_string d ''parent_folder'' in
          if ok then folder_FromID pf
          else seq (index (Split (InventoryPath prp) (CHR ''/'')) 1) (\<lambda>name.
               seq (getDatacenter name) (\<lambda>dc.
               folder_FromPath [] VSphereFolderTypeVM dc))) (\<lambda>f.
     seq (vappcontainer_Create prp (Get_string d ''name'') rpSpec
            \<lparr>EntityConfig = []\<rparr> f) (\<lambda>va.
     seq (resourceVSphereVAppContainerApplyTags va) (\<lambda>u.
     SetId (Value (Reference va)))))))))"

definition resourceVSphereVAppContainerRead :: "unit prog" where
  "resourceVSphereVAppContainerRead =
     seq resourceVSphereVAppContainerClient (\<lambda>client.
     seq get_rd (\<lambda>d. (\<lambda>s.
       case vappcontainer_FromID (ResourceId d) s of
         (Inl (Error err), s') \<Rightarrow>
           if IsManagedObjectNotFoundError err then SetId [] s' else (Inl (Error err), s')
       | (Inl (Panic p), s') \<Rightarrow> (Inl (Panic p), s')
       | (Inr va, s') \<Rightarrow>
          (seq (resourceVSphereVAppContainerReadTags va) (\<lambda>u.
           seq (Set_attr ''name'' (VString (Name va))) (\<lambda>u.
           seq (vappcontainer_Properties va) (\<lambda>vaProps.
           seq (Set_attr ''parent_resource_pool_id''
                  (VString (Value (Parent (ResourcePool vaProps))))) (\<lambda>u.
           seq (Set_attr ''resource_pool_id''
                  (ExtensibleManagedObject_Value (ResourcePool vaProps))) (\<lambda>u.
           flattenVAppContainerConfigSpec (Config (ResourcePool vaProps)))))))) s')))"

text \<open>
  \<^verbatim>\<open>np.(string)\<close> on the new value of \<^verbatim>\<open>d.GetChange\<close>; \<^verbatim>\<open>p.ResourcePool\<close>, the
  pool the vApp handle embeds, has the reference of \<open>p\<close> and is \<open>p\<close> here.
\<close>

definition assert_string :: "val option \<Rightarrow> string prog" where
  "assert_string v = (case v of Some (VString s) \<Rightarrow> ret s | _ \<Rightarrow> do_panic TypeAssertion)"

definition resourceVSphereVAppContainerUpdate :: "unit prog" where
  "resourceVSphereVAppContainerUpdate =
     seq resourceVSphereVAppContainerClient (\<lambda>client.
     seq get_rd (\<lambda>d.
     seq (vappcontainer_FromID (ResourceId d)) (\<lambda>va.
     seq (resourceVSphereVAppContainerApplyTags va) (\<lambda>u.
     seq (let (op, np) = GetChange d ''parent_resource_pool_id'' in
          if op \<noteq> np
          then seq (assert_string np) (\<lambda>nps.
               seq (vappcontainer_FromID nps) (\<lambda>p.
               resourcepool_MoveIntoResourcePool p (Reference va)))
          else ret ()) (\<lambda>u.
     vappcontainer_Update va \<lparr>EntityConfig = []\<rparr>)))))"

definition resourceVSphereVAppContainerDelete :: "unit prog" where
  "resourceVSphereVAppContainerDelete =
     seq resourceVSphereVAppContainerClient (\<lambda>client.
     seq get_rd (\<lambda>d.
     seq (vappcontainer_FromID (ResourceId d)) (\<lambda>va.
     seq (resourceVSphereVAppContainerValidateEmpty va) (\<lambda>u.
     vappcontainer_Delete va))))"

subsection \<open>Resource vsphere_vapp_entity\<close>

definition resourceVSphereVAppEntityImport :: "ResourceData list prog" where
  "resourceVSphereVAppEntityImport = ret []"

definition resourceVSphereVAppEntityCreate :: "unit prog" where
  "resourceVSphereVAppEntityCreate =
     seq resourceVSphereVAppContainerClient (\<lambda>client.
     seq get_rd (\<lambda>d.
     seq (vappcontainer_FromID (Get_string d ''container_id'')) (\<lambda>container.
     seq (vappcontainer_Properties container) (\<lambda>mo.
     seq (virtualmachine_FromUUID (Get_string d ''target_id'')) (\<lambda>target.
     seq (virtualmachine_Properties target) (\<lambda>vmp.
     seq (SetId (Value (Reference container) @ '':'' @ Value (Reference target))) (\<lambda>u.
       let mor = ManagedEntity vmp;
           entityConfig =
             \<lparr>Key = Some mor,
              DestroyWithParent = None,
              StartOrder = to_int32 (Get_int d ''start_order''),
              StartAction = Get_string d ''start_action'',
              StartDelay = to_int32 (Get_int d ''start_delay''),
              StopAction = Get_string d ''stop_action'',
              StopDelay = to_int32 (Get_int d ''stop_delay''),
              WaitingForGuest = GetBoolPtr d ''wait_for_guest''\<rparr>;
           updateSpec =
             \<lparr>EntityConfig = VAppConfigInfo.EntityConfig (VAppConfig mo) @ [entityConfig]\<rparr>
       in vappcontainer_Update container updateSpec)))))))"

definition resourceVSphereVAppEntityFind :: "VAppEntityConfigInfo option prog" where
  "resourceVSphereVAppEntityFind =
     seq get_rd (\<lambda>d.
     let parts = SplitN (ResourceId d) (CHR '':'') 2 in
     seq (index parts 0) (\<lambda>cid.
     seq (index parts 1) (\<lambda>eid.
     seq (vappcontainer_FromID cid) (\<lambda>container.
     seq (vappcontainer_Properties container) (\<lambda>props.
     lift (vappcontainer_EntityFromKey eid props))))))"

definition bool_ptr_val :: "bool option \<Rightarrow> val" where
  "bool_ptr_val p = (case p of None \<Rightarrow> VNil | Some b \<Rightarrow> VBool b)"

definition flattenVAppEntityConfigSpec :: "VAppEntityConfigInfo \<Rightarrow> unit prog" where
  "flattenVAppEntityConfigSpec obj =
     SetBatch
       [(''start_action'', VString (StartAction obj)),
        (''start_delay'', VInt (sint (StartDelay obj))),
        (''start_order'', VInt (sint (StartOrder obj))),
        (''stop_action'', VString (StopAction obj)),
        (''stop_delay'', VInt (sint (StopDelay obj))),
        (''wait_for_guest'', bool_ptr_val (WaitingForGuest obj))]"

text \<open>
  In Read the result of \<^verbatim>\<open>d.Set("target_id", d.Get("target_id"))\<close> is not looked at, and
  the statement runs before the error of Find is.
\<close>

definition resourceVSphereVAppEntityRead :: "unit prog" where
  "resourceVSphereVAppEntityRead =
     seq resourceVSphereVAppContainerClient (\<lambda>client. (\<lambda>s.
       case resourceVSphereVAppEntityFind s of
         (Inl (Panic p), s1) \<Rightarrow> (Inl (Panic p), s1)
       | (found, s1) \<Rightarrow>
          (let s2 = snd (Set_attr ''target_id'' (VString (Get_string (rd s1) ''target_id'')) s1)
           in case found of
                Inl e \<Rightarrow> (Inl e, s2)
              | Inr None \<Rightarrow> SetId [] s2
              | Inr (Some entity) \<Rightarrow> flattenVAppEntityConfigSpec entity s2)))"

definition resourceVSphereVAppEntityUpdate :: "unit prog" where
  "resourceVSphereVAppEntityUpdate =
     seq resourceVSphereVAppContainerClient (\<lambda>client.
     seq get_rd (\<lambda>d.
     seq (vappcontainer_FromID (ResourceId d)) (\<lambda>va.
     seq (resourceVSphereVAppContainerApplyTags va) (\<lambda>u.
     seq (let (op, np) = GetChange d ''parent_resource_pool_id'' in
          if op \<noteq> np
          then seq (assert_string np) (\<lambda>nps.
               seq (vappcontainer_FromID nps) (\<lambda>p.
               resourcepool_MoveIntoResourcePool p (Reference va)))
          else ret ()) (\<lambda>u.
     vappcontainer_Update va \<lparr>EntityConfig = []\<rparr>)))))"

text \<open>
  The loop of Delete: \<^verbatim>\<open>*e.Key != vmo\<close> dereferences \<^verbatim>\<open>e.Key\<close> and compares the two
  references as structs; \<open>el\<close> is the slice built so far.
\<close>

fun EntityDelete_range ::
  "ManagedObjectReference \<Rightarrow> VAppEntityConfigInfo list \<Rightarrow> VAppEntityConfigInfo list
     \<Rightarrow> failure + VAppEntityConfigInfo list" where
  "EntityDelete_range vmo [] el = Inr el"
| "EntityDelete_range vmo (e # es) el =
     (case Key e of
        None \<Rightarrow> Inl (Panic NilDereference)
      | Some k \<Rightarrow>
          if k \<noteq> vmo then EntityDelete_range vmo es (el @ [e])
          else EntityDelete_range vmo es el)"

definition resourceVSphereVAppEntityDelete :: "unit prog" where
  "resourceVSphereVAppEntityDelete =
     seq resourceVSphereVAppContainerClient (\<lambda>client.
     seq get_rd (\<lambda>d.
     seq (vappcontainer_FromID (Get_string d ''container_id'')) (\<lambda>vc.
     seq (vappcontainer_Properties vc) (\<lambda>vcp.
     seq (virtualmachine_FromUUID (Get_string d ''target_id'')) (\<lambda>vm.
     seq (virtualmachine_Properties vm) (\<lambda>vmp.
       let vmo = ManagedEntity vmp in
       seq (lift (EntityDelete_range vmo (VAppConfigInfo.EntityConfig (VAppConfig vcp)) []))
         (\<lambda>el. vappcontainer_Update vc \<lparr>EntityConfig = el\<rparr>)))))))"




subsection \<open>The two resources (schema.Resource)\<close>

record Resource =
  Create :: "unit prog"
  Read :: "unit prog"
  Update :: "unit prog"
  Delete :: "unit prog"
  Importer_State :: "ResourceData list prog"

definition resourceVSphereVAppContainer :: Resource where
  "resourceVSphereVAppContainer =
     \<lparr>Create = resourceVSphereVAppContainerCreate,
      Read = resourceVSphereVAppContainerRead,
      Update = resourceVSphereVAppContainerUpdate,
      Delete = resourceVSphereVAppContainerDelete,
      Importer_State = resourceVSphereVAppContainerImport\<rparr>"

definition resourceVSphereVAppEntity :: Resource where
  "resourceVSphereVAppEntity =
     \<lparr>Create = resourceVSphereVAppEntityCreate,
      Read = resourceVSphereVAppEntityRead,
      Update = resourceVSphereVAppEntityUpdate,
      Delete = resourceVSphereVAppEntityDelete,
      Importer_State = resourceVSphereVAppEntityImport\<rparr>"

subsection \<open>Notions the properties are stated with\<close>

text \<open>An entity record has the key value \<open>k\<close>: its \<open>Key\<close> is set and its \<open>Value\<close> is \<open>k\<close>.\<close>

definition has_key :: "string \<Rightarrow> VAppEntityConfigInfo \<Rightarrow> bool" where
  "has_key k e = (case Key e of None \<Rightarrow> False | Some r \<Rightarrow> Value r = k)"

definition first_with_key ::
  "string \<Rightarrow> VAppEntityConfigInfo list \<Rightarrow> VAppEntityConfigInfo option" where
  "first_with_key k es = find (has_key k) es"

text \<open>The calls an operation added to the trace, and whether the destroy call is among calls.\<close>

definition new_calls :: "state \<Rightarrow> state \<Rightarrow> trace" where
  "new_calls s s' = drop (length (calls s)) (calls s')"

definition is_Destroy :: "api_call \<Rightarrow> bool" where
  "is_Destroy c = (case c of Call_Destroy va \<Rightarrow> True | _ \<Rightarrow> False)"

definition destroy_called :: "trace \<Rightarrow> bool" where
  "destroy_called t = list_ex (\<lambda>(c, r). is_Destroy c) t"

text \<open>
  What Read stores: the attributes of a container read from its handle and its properties,
  and the attributes of an entity record; \<open>holds d kvs\<close> says the flat configuration \<open>d\<close>
  has these values. \<open>update_specs\<close> are the config specs a trace sent with UpdateConfig, and
  an operation \<open>only_sends P\<close> when every one of them satisfies \<open>P\<close>.
\<close>

definition container_attributes :: "object \<Rightarrow> mo_VirtualApp \<Rightarrow> (string \<times> val) list" where
  "container_attributes va vaProps =
     [(''name'', VString (Name va)),
      (''parent_resource_pool_id'', VString (Value (Parent (ResourcePool vaProps)))),
      (''resource_pool_id'', ExtensibleManagedObject_Value (ResourcePool vaProps)),
      (''memory_reservation'', Reservation (MemoryAllocation (Config (ResourcePool vaProps)))),
      (''memory_expandable'', ExpandableReservation (MemoryAllocation (Config (ResourcePool vaProps)))),
      (''memory_limit'', Limit (MemoryAllocation (Config (ResourcePool vaProps)))),
      (''memory_shares'', SharesInfo.Shares (Shares (MemoryAllocation (Config (ResourcePool vaProps))))),
      (''memory_share_level'', Level (Shares (MemoryAllocation (Config (ResourcePool vaProps))))),
      (''cpu_reservation'', Reservation (CpuAllocation (Config (ResourcePool vaProps)))),
      (''cpu_expandable'', ExpandableReservation (CpuAllocation (Config (ResourcePool vaProps)))),
      (''cpu_limit'', Limit (CpuAllocation (Config (ResourcePool vaProps)))),
      (''cpu_shares'', SharesInfo.Shares (Shares (CpuAllocation (Config (ResourcePool vaProps))))),
      (''cpu_share_level'', Level (Shares (CpuAllocation (Config (ResourcePool vaProps)))))]"

definition entity_attributes :: "VAppEntityConfigInfo \<Rightarrow> (string \<times> val) list" where
  "entity_attributes obj =
     [(''start_action'', VString (StartAction obj)),
      (''start_delay'', VInt (sint (StartDelay obj))),
      (''start_order'', VInt (sint (StartOrder obj))),
      (''stop_action'', VString (StopAction obj)),
      (''stop_delay'', VInt (sint (StopDelay obj))),
      (''wait_for_guest'', bool_ptr_val (WaitingForGuest obj))]"

definition holds :: "ResourceData \<Rightarrow> (string \<times> val) list \<Rightarrow> bool" where
  "holds d kvs = list_all (\<lambda>(k, v). attrs d k = Some v) kvs"

fun update_specs :: "trace \<Rightarrow> VAppConfigSpec list" where
  "update_specs [] = []"
| "update_specs ((Call_UpdateConfig va spec, r) # t) = spec # update_specs t"
| "update_specs (c # t) = update_specs t"

definition only_sends :: "(VAppConfigSpec \<Rightarrow> bool) \<Rightarrow> 'a prog \<Rightarrow> bool" where
  "only_sends P m =
     (\<forall>s. calls (snd (m s)) = calls s @ new_calls s (snd (m s))
        \<and> list_all P (update_specs (new_calls s (snd (m s)))))"












subsection \<open>Renaming strings\<close>



text \<open>The renaming of each kind of value: every string in it is replaced by its image.\<close>

definition ren_ref :: "(string \<Rightarrow> string) \<Rightarrow> ManagedObjectReference \<Rightarrow> ManagedObjectReference" where
  "ren_ref f r = \<lparr>Type = f (Type r), Value = f (Value r)\<rparr>"

definition ren_val :: "(string \<Rightarrow> string) \<Rightarrow> val \<Rightarrow> val" where
  "ren_val f v = (case v of VString s \<Rightarrow> VString (f s) | _ \<Rightarrow> v)"

definition ren_entity :: "(string \<Rightarrow> string) \<Rightarrow> VAppEntityConfigInfo \<Rightarrow> VAppEntityConfigInfo" where
  "ren_entity f e =
     \<lparr>Key = map_option (ren_ref f) (Key e),
      DestroyWithParent = DestroyWithParent e,
      StartOrder = StartOrder e,
      StartAction = f (StartAction e),
      StartDelay = StartDelay e,
      StopAction = f (StopAction e),
      StopDelay = StopDelay e,
      WaitingForGuest = WaitingForGuest e\<rparr>"

definition ren_spec :: "(string \<Rightarrow> string) \<Rightarrow> VAppConfigSpec \<Rightarrow> VAppConfigSpec" where
  "ren_spec f spec = \<lparr>EntityConfig = map (ren_entity f) (EntityConfig spec)\<rparr>"

definition ren_allocation :: "(string \<Rightarrow> string) \<Rightarrow> ResourceAllocationInfo \<Rightarrow> ResourceAllocationInfo" where
  "ren_allocation f a =
     \<lparr>Reservation = ren_val f (Reservation a),
      ExpandableReservation = ren_val f (ExpandableReservation a),
      Limit = ren_val f (Limit a),
      Shares = \<lparr>SharesInfo.Shares = ren_val f (SharesInfo.Shares (Shares a)),
                Level = ren_val f (Level (Shares a))\<rparr>\<rparr>"

definition ren_config :: "(string \<Rightarrow> string) \<Rightarrow> ResourceConfigSpec \<Rightarrow> ResourceConfigSpec" where
  "ren_config f c =
     \<lparr>CpuAllocation = ren_allocation f (CpuAllocation c),
      MemoryAllocation = ren_allocation f (MemoryAllocation c)\<rparr>"

definition ren_props :: "(string \<Rightarrow> string) \<Rightarrow> mo_VirtualApp \<Rightarrow> mo_VirtualApp" where
  "ren_props f p =
     \<lparr>ResourcePool =
        \<lparr>Self = ren_ref f (Self (ResourcePool p)),
         ExtensibleManagedObject_Value = ren_val f (ExtensibleManagedObject_Value (ResourcePool p)),
         Parent = ren_ref f (Parent (ResourcePool p)),
         mo_ResourcePool.ResourcePool =
           map (ren_ref f) (mo_ResourcePool.ResourcePool (ResourcePool p)),
         Vm = map (ren_ref f) (Vm (ResourcePool p)),
         Config = ren_config f (Config (ResourcePool p))\<rparr>,
      VAppConfig =
        \<lparr>VAppConfigInfo.EntityConfig =
           map (ren_entity f) (VAppConfigInfo.EntityConfig (VAppConfig p))\<rparr>\<rparr>"

definition ren_vm :: "(string \<Rightarrow> string) \<Rightarrow> mo_VirtualMachine \<Rightarrow> mo_VirtualMachine" where
  "ren_vm f vm = \<lparr>ManagedEntity = ren_ref f (ManagedEntity vm)\<rparr>"

definition ren_object :: "(string \<Rightarrow> string) \<Rightarrow> object \<Rightarrow> object" where
  "ren_object f obj =
     \<lparr>Reference = ren_ref f (Reference obj),
      InventoryPath = f (InventoryPath obj),
      Name = f (Name obj)\<rparr>"

definition ren_found :: "(string \<Rightarrow> string) \<Rightarrow> object_Reference \<Rightarrow> object_Reference" where
  "ren_found f x =
     (case x of Is_VirtualApp obj \<Rightarrow> Is_VirtualApp (ren_object f obj)
              | Is_Other obj \<Rightarrow> Is_Other (ren_object f obj))"

primrec ren_error :: "(string \<Rightarrow> string) \<Rightarrow> go_error \<Rightarrow> go_error"
  and ren_arg :: "(string \<Rightarrow> string) \<Rightarrow> fmt_arg \<Rightarrow> fmt_arg" where
  "ren_error f (ManagedObjectNotFound s) = ManagedObjectNotFound (f s)"
| "ren_error f (Fault s) = Fault (f s)"
| "ren_error f (Errorf fm args) = Errorf fm (map (ren_arg f) args)"
| "ren_arg f (ArgString s) = ArgString (f s)"
| "ren_arg f (ArgError err) = ArgError (ren_error f err)"

definition ren_failure :: "(string \<Rightarrow> string) \<Rightarrow> failure \<Rightarrow> failure" where
  "ren_failure f x = (case x of Error err \<Rightarrow> Error (ren_error f err) | Panic p \<Rightarrow> Panic p)"

definition ren_task :: "(string \<Rightarrow> string) \<Rightarrow> task \<Rightarrow> task" where
  "ren_task f t = (case t of Task ref \<Rightarrow> Task (ren_ref f ref))"

definition ren_attrs :: "(string \<Rightarrow> string) \<Rightarrow> (string \<rightharpoonup> val) \<Rightarrow> (string \<rightharpoonup> val)" where
  "ren_attrs f m = (\<lambda>k. map_option (ren_val f) (m k))"

definition ren_rd :: "(string \<Rightarrow> string) \<Rightarrow> ResourceData \<Rightarrow> ResourceData" where
  "ren_rd f d =
     \<lparr>ResourceId = f (ResourceId d),
      attrs = ren_attrs f (attrs d),
      old_attrs = ren_attrs f (old_attrs d)\<rparr>"

definition ren_call :: "(string \<Rightarrow> string) \<Rightarrow> api_call \<Rightarrow> api_call" where
  "ren_call f c =
     (case c of
        Call_ValidateVirtualCenter \<Rightarrow> Call_ValidateVirtualCenter
      | Call_Finder_VirtualApp dc name \<Rightarrow>
          Call_Finder_VirtualApp (map_option (ren_object f) dc) (f name)
      | Call_Finder_ObjectReference ref \<Rightarrow> Call_Finder_ObjectReference (ren_ref f ref)
      | Call_Properties ref \<Rightarrow> Call_Properties (ren_ref f ref)
      | Call_CreateVApp va name resSpec vSpec folder \<Rightarrow>
          Call_CreateVApp (ren_object f va) (f name) (ren_config f resSpec) (ren_spec f vSpec)
            (ren_object f folder)
      | Call_UpdateConfig va spec \<Rightarrow> Call_UpdateConfig (ren_object f va) (ren_spec f spec)
      | Call_Destroy va \<Rightarrow> Call_Destroy (ren_object f va)
      | Call_Wait t \<Rightarrow> Call_Wait (ren_task f t)
      | Call_resourcepool_FromID i \<Rightarrow> Call_resourcepool_FromID (f i)
      | Call_resourcepool_MoveIntoResourcePool p ref \<Rightarrow>
          Call_resourcepool_MoveIntoResourcePool (ren_object f p) (ren_ref f ref)
      | Call_folder_FromID i \<Rightarrow> Call_folder_FromID (f i)
      | Call_folder_FromPath path ft dc \<Rightarrow> Call_folder_FromPath (f path) ft (ren_object f dc)
      | Call_getDatacenter name \<Rightarrow> Call_getDatacenter (f name)
      | Call_virtualmachine_FromUUID uuid \<Rightarrow> Call_virtualmachine_FromUUID (f uuid)
      | Call_virtualmachine_Properties vm \<Rightarrow> Call_virtualmachine_Properties (ren_object f vm)
      | Call_tagsClientIfDefined \<Rightarrow> Call_tagsClientIfDefined
      | Call_TagsClient \<Rightarrow> Call_TagsClient
      | Call_processTagDiff obj \<Rightarrow> Call_processTagDiff (ren_object f obj)
      | Call_readTagsForResource obj \<Rightarrow> Call_readTagsForResource (ren_object f obj))"

definition ren_trace :: "(string \<Rightarrow> string) \<Rightarrow> trace \<Rightarrow> trace" where
  "ren_trace f t = map (\<lambda>(c, r). (ren_call f c, map_option (ren_error f) r)) t"

text \<open>
  Two remote sides give the same answers up to \<open>f\<close> when the second answers a call with
  renamed arguments as the first answers the call, renamed.
\<close>

definition same_answers :: "(string \<Rightarrow> string) \<Rightarrow> vsphere \<Rightarrow> vsphere \<Rightarrow> bool" where
  "same_answers f r r' =
     (ans_ValidateVirtualCenter r' = map_option (ren_error f) (ans_ValidateVirtualCenter r)
      \<and> (\<forall>dc name. ans_Finder_VirtualApp r' (map_option (ren_object f) dc) (f name)
            = map_sum (ren_error f) (ren_object f) (ans_Finder_VirtualApp r dc name))
      \<and> (\<forall>ref. ans_Finder_ObjectReference r' (ren_ref f ref)
            = map_sum (ren_error f) (ren_found f) (ans_Finder_ObjectReference r ref))
      \<and> (\<forall>ref. ans_Properties r' (ren_ref f ref)
            = map_sum (ren_error f) (ren_props f) (ans_Properties r ref))
      \<and> (\<forall>va name resSpec vSpec folder.
            ans_CreateVApp r' (ren_object f va) (f name) (ren_config f resSpec) (ren_spec f vSpec)
              (ren_object f folder)
            = map_sum (ren_error f) (ren_object f) (ans_CreateVApp r va name resSpec vSpec folder))
      \<and> (\<forall>va spec. ans_UpdateConfig r' (ren_object f va) (ren_spec f spec)
            = map_option (ren_error f) (ans_UpdateConfig r va spec))
      \<and> (\<forall>va. ans_Destroy r' (ren_object f va)
            = map_sum (ren_error f) (ren_task f) (ans_Destroy r va))
      \<and> (\<forall>t. ans_Wait r' (ren_task f t) = map_option (ren_error f) (ans_Wait r t))
      \<and> (\<forall>i. ans_resourcepool_FromID r' (f i)
            = map_sum (ren_error f) (ren_object f) (ans_resourcepool_FromID r i))
      \<and> (\<forall>p ref. ans_resourcepool_MoveIntoResourcePool r' (ren_object f p) (ren_ref f ref)
            = map_option (ren_error f) (ans_resourcepool_MoveIntoResourcePool r p ref))
      \<and> (\<forall>i. ans_folder_FromID r' (f i)
            = map_sum (ren_error f) (ren_object f) (ans_folder_FromID r i))
      \<and> (\<forall>path ft dc. ans_folder_FromPath r' (f path) ft (ren_object f dc)
            = map_sum (ren_error f) (ren_object f) (ans_folder_FromPath r path ft dc))
      \<and> (\<forall>name. ans_getDatacenter r' (f name)
            = map_sum (ren_error f) (ren_object f) (ans_getDatacenter r name))
      \<and> (\<forall>uuid. ans_virtualmachine_FromUUID r' (f uuid)
            = map_sum (ren_error f) (ren_object f) (ans_virtualmachine_FromUUID r uuid))
      \<and> (\<forall>vm. ans_virtualmachine_Properties r' (ren_object f vm)
            = map_sum (ren_error f) (ren_vm f) (ans_virtualmachine_Properties r vm))
      \<and> ans_tagsClientIfDefined r' = map_sum (ren_error f) id (ans_tagsClientIfDefined r)
      \<and> ans_TagsClient r' = map_sum (ren_error f) id (ans_TagsClient r)
      \<and> (\<forall>obj. ans_processTagDiff r' (ren_object f obj)
            = map_option (ren_error f) (ans_processTagDiff r obj))
      \<and> (\<forall>obj d. ans_readTagsForResource r' (ren_object f obj) (ren_rd f d)
            = map_sum (ren_error f) (ren_rd f) (ans_readTagsForResource r obj d))
      \<and> (\<forall>d. ans_expandResourcePoolConfigSpec r' (ren_rd f d)
            = ren_config f (ans_expandResourcePoolConfigSpec r d))
      \<and> (\<forall>key v. ans_Set r' key (ren_val f v) = map_option (ren_error f) (ans_Set r key v)))"

text \<open>
  Two states are \<open>related\<close> when the second is the first renamed: the remote sides give the
  same answers, the attributes and the trace of the second are those of the first with every
  string renamed, and the resource IDs are related by \<open>I\<close>, which is \<open>same_id f\<close> (the ID
  is renamed as well) or \<open>any_id\<close> (for an operation that does not read the ID). Two
  results are related when they are the same failure, renamed, or values related by \<open>R\<close>:
  \<open>by_ren r\<close> for a value the renaming \<open>r\<close> applies to, \<open>same\<close> for a value without
  strings. An operation \<open>m\<close> \<open>commutes\<close> with the renaming when, run on related states,
  \<open>m\<close> and its renamed form \<open>m'\<close> end with related results in related states.
\<close>

definition related_data ::
  "(string \<Rightarrow> string) \<Rightarrow> (string \<Rightarrow> string \<Rightarrow> bool) \<Rightarrow> ResourceData \<Rightarrow> ResourceData \<Rightarrow> bool" where
  "related_data f I d d' =
     (I (ResourceId d) (ResourceId d')
      \<and> attrs d' = ren_attrs f (attrs d)
      \<and> old_attrs d' = ren_attrs f (old_attrs d))"

definition related ::
  "(string \<Rightarrow> string) \<Rightarrow> (string \<Rightarrow> string \<Rightarrow> bool) \<Rightarrow> state \<Rightarrow> state \<Rightarrow> bool" where
  "related f I s t =
     (same_answers f (remote s) (remote t)
      \<and> related_data f I (rd s) (rd t)
      \<and> calls t = ren_trace f (calls s))"

definition related_result ::
  "(string \<Rightarrow> string) \<Rightarrow> ('a \<Rightarrow> 'b \<Rightarrow> bool) \<Rightarrow> failure + 'a \<Rightarrow> failure + 'b \<Rightarrow> bool" where
  "related_result f R r r' =
     (case r of
        Inl e \<Rightarrow> r' = Inl (ren_failure f e)
      | Inr x \<Rightarrow> (case r' of Inl e' \<Rightarrow> False | Inr x' \<Rightarrow> R x x'))"

definition commutes ::
  "(string \<Rightarrow> string) \<Rightarrow> (string \<Rightarrow> string \<Rightarrow> bool) \<Rightarrow> ('a \<Rightarrow> 'b \<Rightarrow> bool)
     \<Rightarrow> 'a prog \<Rightarrow> 'b prog \<Rightarrow> bool" where
  "commutes f I R m m' =
     (\<forall>s t. related f I s t \<longrightarrow>
        related_result f R (fst (m s)) (fst (m' t)) \<and> related f I (snd (m s)) (snd (m' t)))"

definition by_ren :: "('a \<Rightarrow> 'b) \<Rightarrow> 'a \<Rightarrow> 'b \<Rightarrow> bool" where
  "by_ren rx x x' = (x' = rx x)"






subsection \<open>Concrete inventory for the examples\<close>

definition vapp_ref :: ManagedObjectReference where
  "vapp_ref = \<lparr>Type = ''VirtualApp'', Value = ''vapp-1''\<rparr>"

definition vm_ref :: "string \<Rightarrow> ManagedObjectReference" where
  "vm_ref v = \<lparr>Type = ''VirtualMachine'', Value = v\<rparr>"

definition entity :: "ManagedObjectReference option \<Rightarrow> int32 \<Rightarrow> VAppEntityConfigInfo" where
  "entity k order =
     \<lparr>Key = k, DestroyWithParent = None, StartOrder = order, StartAction = ''powerOn'',
      StartDelay = 0, StopAction = ''powerOff'', StopDelay = 0, WaitingForGuest = None\<rparr>"

definition allocation :: "int \<Rightarrow> ResourceAllocationInfo" where
  "allocation n =
     \<lparr>Reservation = VInt n, ExpandableReservation = VBool True, Limit = VInt (- 1),
      Shares = \<lparr>SharesInfo.Shares = VInt 4000, Level = VString ''normal''\<rparr>\<rparr>"

definition vapp_props ::
  "ManagedObjectReference list \<Rightarrow> VAppEntityConfigInfo list \<Rightarrow> mo_VirtualApp" where
  "vapp_props vms es =
     \<lparr>ResourcePool =
        \<lparr>Self = vapp_ref, ExtensibleManagedObject_Value = VNil,
         Parent = \<lparr>Type = ''ResourcePool'', Value = ''resgroup-8''\<rparr>,
         mo_ResourcePool.ResourcePool = [], Vm = vms,
         Config = \<lparr>CpuAllocation = allocation 100, MemoryAllocation = allocation 512\<rparr>\<rparr>,
      VAppConfig = \<lparr>VAppConfigInfo.EntityConfig = es\<rparr>\<rparr>"

definition vapp_obj :: object where
  "vapp_obj = \<lparr>Reference = vapp_ref, InventoryPath = ''/dc1/vm/vapp-1'', Name = ''vapp-1''\<rparr>"

definition vm_obj :: object where
  "vm_obj = \<lparr>Reference = vm_ref ''vm-7'', InventoryPath = ''/dc1/vm/web'', Name = ''web''\<rparr>"

definition some_obj :: "string \<Rightarrow> string \<Rightarrow> string \<Rightarrow> object" where
  "some_obj t v path = \<lparr>Reference = \<lparr>Type = t, Value = v\<rparr>, InventoryPath = path, Name = v\<rparr>"

text \<open>
  A remote side on which every call succeeds: the inventory holds the vApp \<open>vapp-1\<close> with
  the given properties and the virtual machine \<open>vm-7\<close>; any other reference is not found.
\<close>

definition inventory :: "mo_VirtualApp \<Rightarrow> vsphere" where
  "inventory props =
     \<lparr>ans_ValidateVirtualCenter = None,
      ans_Finder_VirtualApp = (\<lambda>dc name. Inr vapp_obj),
      ans_Finder_ObjectReference =
        (\<lambda>ref. if ref = vapp_ref then Inr (Is_VirtualApp vapp_obj)
               else Inl (ManagedObjectNotFound (Value ref))),
      ans_Properties =
        (\<lambda>ref. if ref = vapp_ref then Inr props else Inl (ManagedObjectNotFound (Value ref))),
      ans_CreateVApp = (\<lambda>prp name resSpec vSpec folder. Inr vapp_obj),
      ans_UpdateConfig = (\<lambda>va spec. None),
      ans_Destroy = (\<lambda>va. Inr (Task (Reference va))),
      ans_Wait = (\<lambda>t. None),
      ans_resourcepool_FromID =
        (\<lambda>i. Inr (some_obj ''ResourcePool'' i ''/dc1/host/cluster1/Resources'')),
      ans_resourcepool_MoveIntoResourcePool = (\<lambda>p ref. None),
      ans_folder_FromID = (\<lambda>i. Inr (some_obj ''Folder'' i ''/dc1/vm'')),
      ans_folder_FromPath = (\<lambda>path ft dc. Inr (some_obj ''Folder'' ''group-v3'' ''/dc1/vm'')),
      ans_getDatacenter = (\<lambda>name. Inr (some_obj ''Datacenter'' ''datacenter-2'' (''/'' @ name))),
      ans_virtualmachine_FromUUID = (\<lambda>uuid. Inr vm_obj),
      ans_virtualmachine_Properties = (\<lambda>vm. Inr \<lparr>ManagedEntity = Reference vm\<rparr>),
      ans_tagsClientIfDefined = Inr None,
      ans_TagsClient = Inl (Errorf ''tags require %s or higher'' [ArgString ''vCenter 6.0'']),
      ans_processTagDiff = (\<lambda>obj. None),
      ans_readTagsForResource = (\<lambda>obj d. Inr d),
      ans_expandResourcePoolConfigSpec =
        (\<lambda>d. \<lparr>CpuAllocation = allocation 0, MemoryAllocation = allocation 0\<rparr>),
      ans_Set = (\<lambda>key v. None)\<rparr>"

definition start :: "vsphere \<Rightarrow> string \<Rightarrow> (string \<times> val) list \<Rightarrow> state" where
  "start r ident kvs =
     \<lparr>remote = r,
      rd = \<lparr>ResourceId = ident, attrs = map_of kvs, old_attrs = Map.empty\<rparr>,
      calls = []\<rparr>"

definition entity_config :: "(string \<times> val) list" where
  "entity_config =
     [(''container_id'', VString ''vapp-1''), (''target_id'', VString ''4207f0a1''),
      (''start_order'', VInt 2), (''start_action'', VString ''powerOn''),
      (''start_delay'', VInt 30), (''stop_action'', VString ''guestShutdown''),
      (''stop_delay'', VInt 60), (''wait_for_guest'', VBool True)]"

definition container_config :: "(string \<times> val) list" where
  "container_config =
     [(''name'', VString ''shop''), (''parent_resource_pool_id'', VString ''resgroup-8'')]"




section \<open>Verification\<close>

subsection \<open>Running the monad\<close>

lemma seq_run:
  "seq m f s = (case m s of (Inl e, s') \<Rightarrow> (Inl e, s') | (Inr x, s') \<Rightarrow> f x s')"
  by (simp add: seq_def)

lemma api_run:
  "api c ask s =
     (case ask (remote s) of
        Inl err \<Rightarrow> (Inl (Error err), s\<lparr>calls := calls s @ [(c, Some err)]\<rparr>)
      | Inr x \<Rightarrow> (Inr x, s\<lparr>calls := calls s @ [(c, None)]\<rparr>))"
  by (simp add: api_def)

subsection \<open>The calls, run\<close>

lemma FromID_run:
  "vappcontainer_FromID ident s =
     (let ref = \<lparr>Type = ''VirtualApp'', Value = ident\<rparr> in
      case ans_Finder_ObjectReference (remote s) ref of
        Inl err \<Rightarrow>
          (Inl (Error err), s\<lparr>calls := calls s @ [(Call_Finder_ObjectReference ref, Some err)]\<rparr>)
      | Inr (Is_VirtualApp va) \<Rightarrow>
          (Inr va, s\<lparr>calls := calls s @ [(Call_Finder_ObjectReference ref, None)]\<rparr>)
      | Inr (Is_Other other) \<Rightarrow>
          (Inl (Panic TypeAssertion),
           s\<lparr>calls := calls s @ [(Call_Finder_ObjectReference ref, None)]\<rparr>))"
  by (simp add: vappcontainer_FromID_def seq_run api_run ret_def do_panic_def Let_def
      split: sum.splits object_Reference.splits)

lemma Properties_run:
  "vappcontainer_Properties obj s =
     (case ans_Properties (remote s) (Reference obj) of
        Inl err \<Rightarrow> (Inl (Error err), s\<lparr>calls := calls s @ [(Call_Properties (Reference obj), Some err)]\<rparr>)
      | Inr props \<Rightarrow> (Inr props, s\<lparr>calls := calls s @ [(Call_Properties (Reference obj), None)]\<rparr>))"
  by (simp add: vappcontainer_Properties_def api_run)

lemma Client_run:
  "resourceVSphereVAppContainerClient s =
     (case ans_ValidateVirtualCenter (remote s) of
        Some err \<Rightarrow> (Inl (Error err), s\<lparr>calls := calls s @ [(Call_ValidateVirtualCenter, Some err)]\<rparr>)
      | None \<Rightarrow> (Inr (), s\<lparr>calls := calls s @ [(Call_ValidateVirtualCenter, None)]\<rparr>))"
  by (simp add: resourceVSphereVAppContainerClient_def api_run status_def split: option.splits)

lemma Update_run:
  "vappcontainer_Update va spec s =
     ((case ans_UpdateConfig (remote s) va spec of Some err \<Rightarrow> Inl (Error err) | None \<Rightarrow> Inr ()),
      s\<lparr>calls := calls s @ [(Call_UpdateConfig va spec, ans_UpdateConfig (remote s) va spec)]\<rparr>)"
  by (simp add: vappcontainer_Update_def api_run status_def split: option.splits)

lemma FromUUID_run:
  "virtualmachine_FromUUID uuid s =
     (case ans_virtualmachine_FromUUID (remote s) uuid of
        Inl err \<Rightarrow> (Inl (Error err), s\<lparr>calls := calls s @ [(Call_virtualmachine_FromUUID uuid, Some err)]\<rparr>)
      | Inr vm \<Rightarrow> (Inr vm, s\<lparr>calls := calls s @ [(Call_virtualmachine_FromUUID uuid, None)]\<rparr>))"
  by (simp add: virtualmachine_FromUUID_def api_run)

lemma vm_Properties_run:
  "virtualmachine_Properties vm s =
     (case ans_virtualmachine_Properties (remote s) vm of
        Inl err \<Rightarrow> (Inl (Error err), s\<lparr>calls := calls s @ [(Call_virtualmachine_Properties vm, Some err)]\<rparr>)
      | Inr vmp \<Rightarrow> (Inr vmp, s\<lparr>calls := calls s @ [(Call_virtualmachine_Properties vm, None)]\<rparr>))"
  by (simp add: virtualmachine_Properties_def api_run)

lemmas runs = seq_run Client_run FromID_run Properties_run FromUUID_run vm_Properties_run
  Update_run get_rd_def SetId_def lift_def ret_def Let_def

lemmas example_defs = start_def inventory_def vapp_props_def vapp_obj_def vapp_ref_def
  vm_obj_def vm_ref_def entity_def entity_config_def some_obj_def allocation_def
  container_config_def

lemmas getters = Get_string_def Get_int_def GetBoolPtr_def GetOk_string_def to_int32_def

subsection \<open>FromID\<close>

text \<open>
  C7. For every ID string, FromID asks the inventory finder (\<^verbatim>\<open>finder.ObjectReference\<close>)
  for the reference whose Type is "VirtualApp" and whose Value is the given ID, and makes
  no other call. It returns the finder's error when the finder fails and the located
  VirtualApp when the finder succeeds. (The finder answers with an interface value; were it
  anything but a VirtualApp, the type assertion would panic.)
\<close>

theorem C7_FromID_finder:
  "vappcontainer_FromID ident s =
     (let ref = \<lparr>Type = ''VirtualApp'', Value = ident\<rparr> in
      case ans_Finder_ObjectReference (remote s) ref of
        Inl err \<Rightarrow>
          (Inl (Error err), s\<lparr>calls := calls s @ [(Call_Finder_ObjectReference ref, Some err)]\<rparr>)
      | Inr (Is_VirtualApp va) \<Rightarrow>
          (Inr va, s\<lparr>calls := calls s @ [(Call_Finder_ObjectReference ref, None)]\<rparr>)
      | Inr (Is_Other other) \<Rightarrow>
          (Inl (Panic TypeAssertion),
           s\<lparr>calls := calls s @ [(Call_Finder_ObjectReference ref, None)]\<rparr>))"
  by (rule FromID_run)

subsection \<open>EntityFromKey\<close>

lemma EntityFromKey_range_eq:
  "EntityFromKey_range k es =
     (if list_all (\<lambda>e. Key e \<noteq> None) (takeWhile (\<lambda>e. \<not> has_key k e) es)
      then Inr (first_with_key k es)
      else Inl (Panic NilDereference))"
  by (induction es) (auto simp: has_key_def first_with_key_def split: option.splits)

text \<open>
  C2, as stated, fails: the list below holds one record, whose Key is nil. No element has
  the key value "vm-7", so the claim has EntityFromKey return nil; the scan dereferences the
  nil Key of the record and panics.
\<close>

theorem C2_nil_key_counterexample:
  "vappcontainer_EntityFromKey ''vm-7'' (vapp_props [] [entity None 1])
     = Inl (Panic NilDereference)
   \<and> first_with_key ''vm-7''
        (VAppConfigInfo.EntityConfig (VAppConfig (vapp_props [] [entity None 1]))) = None"
  by (simp add: vappcontainer_EntityFromKey_def vapp_props_def entity_def first_with_key_def
      has_key_def)

text \<open>
  C2, amended. For every vApp properties object \<open>c\<close> and every key string \<open>k\<close>,
  EntityFromKey scans \<open>c.VAppConfig.EntityConfig\<close> once from the front. When every record
  it looks at before it stops (the records before the first one with key value \<open>k\<close>, all of
  them when there is none) has a Key, it returns the first record whose Key.Value equals
  \<open>k\<close>, and nil when no record has that key value; when it reaches a record whose Key is nil
  it panics with a nil dereference.
\<close>

theorem C2_EntityFromKey_scan:
  "vappcontainer_EntityFromKey k c =
     (if list_all (\<lambda>e. Key e \<noteq> None)
           (takeWhile (\<lambda>e. \<not> has_key k e) (VAppConfigInfo.EntityConfig (VAppConfig c)))
      then Inr (first_with_key k (VAppConfigInfo.EntityConfig (VAppConfig c)))
      else Inl (Panic NilDereference))"
  by (simp add: vappcontainer_EntityFromKey_def EntityFromKey_range_eq)

theorem C2_EntityFromKey_scan_witness:
  "vappcontainer_EntityFromKey ''vm-7''
     (vapp_props [] [entity (Some (vm_ref ''vm-3'')) 1, entity (Some (vm_ref ''vm-7'')) 2,
                     entity (Some (vm_ref ''vm-7'')) 3])
     = Inr (Some (entity (Some (vm_ref ''vm-7'')) 2))"
  using C2_EntityFromKey_scan [of "''vm-7''"
      "vapp_props [] [entity (Some (vm_ref ''vm-3'')) 1, entity (Some (vm_ref ''vm-7'')) 2,
                      entity (Some (vm_ref ''vm-7'')) 3]"]
  by (simp add: vapp_props_def entity_def vm_ref_def first_with_key_def has_key_def)

subsection \<open>Find\<close>

lemma SplitN_2:
  "SplitN s sep 2 =
     (if sep \<in> set s
      then [takeWhile (\<lambda>c. c \<noteq> sep) s, tl (dropWhile (\<lambda>c. c \<noteq> sep) s)]
      else [s])"
  by (simp add: numeral_2_eq_2)

lemma takeWhile_sep: "sep \<notin> set a \<Longrightarrow> takeWhile (\<lambda>c. c \<noteq> sep) (a @ sep # b) = a"
  by (induction a) auto

lemma dropWhile_sep: "sep \<notin> set a \<Longrightarrow> dropWhile (\<lambda>c. c \<noteq> sep) (a @ sep # b) = sep # b"
  by (induction a) auto

lemma Find_run:
  "resourceVSphereVAppEntityFind s =
     (if CHR '':'' \<in> set (ResourceId (rd s))
      then seq (vappcontainer_FromID (takeWhile (\<lambda>c. c \<noteq> CHR '':'') (ResourceId (rd s))))
             (\<lambda>container. seq (vappcontainer_Properties container)
             (\<lambda>props. lift (vappcontainer_EntityFromKey
                (tl (dropWhile (\<lambda>c. c \<noteq> CHR '':'') (ResourceId (rd s)))) props))) s
      else (Inl (Panic IndexOutOfRange), s))"
  by (simp add: resourceVSphereVAppEntityFind_def seq_run get_rd_def SplitN_2 index_def
      ret_def do_panic_def Let_def)

lemma FromID_no_index_panic: "fst (vappcontainer_FromID i s) \<noteq> Inl (Panic IndexOutOfRange)"
  by (simp add: FromID_run Let_def split: sum.splits object_Reference.splits)

lemma Properties_no_panic: "fst (vappcontainer_Properties obj s) \<noteq> Inl (Panic p)"
  by (simp add: vappcontainer_Properties_def api_run split: sum.splits)

lemma EntityFromKey_no_index_panic:
  "vappcontainer_EntityFromKey k c \<noteq> Inl (Panic IndexOutOfRange)"
  by (simp add: vappcontainer_EntityFromKey_def EntityFromKey_range_eq)

lemma lookup_no_index_panic:
  "fst (seq (vappcontainer_FromID cid)
         (\<lambda>container. seq (vappcontainer_Properties container)
         (\<lambda>props. lift (vappcontainer_EntityFromKey eid props))) s)
     \<noteq> Inl (Panic IndexOutOfRange)"
proof -
  obtain r1 s1 where a: "vappcontainer_FromID cid s = (r1, s1)" by force
  have b: "r1 \<noteq> Inl (Panic IndexOutOfRange)"
    using FromID_no_index_panic [of cid s] a by simp
  show ?thesis
  proof (cases r1)
    case (Inl e)
    with a b show ?thesis by (simp add: seq_run)
  next
    case (Inr container)
    obtain r2 s2 where c: "vappcontainer_Properties container s1 = (r2, s2)" by force
    have d: "r2 \<noteq> Inl (Panic IndexOutOfRange)"
      using Properties_no_panic [of container s1 IndexOutOfRange] c by simp
    from a Inr c d show ?thesis
      by (cases r2) (simp_all add: seq_run lift_def EntityFromKey_no_index_panic)
  qed
qed

lemma Find_lookup:
  assumes "ResourceId (rd s) = cid @ '':'' @ eid" and "CHR '':'' \<notin> set cid"
  shows "resourceVSphereVAppEntityFind s =
     (let ref = \<lparr>Type = ''VirtualApp'', Value = cid\<rparr> in
      case ans_Finder_ObjectReference (remote s) ref of
        Inl err \<Rightarrow>
          (Inl (Error err), s\<lparr>calls := calls s @ [(Call_Finder_ObjectReference ref, Some err)]\<rparr>)
      | Inr (Is_Other other) \<Rightarrow>
          (Inl (Panic TypeAssertion),
           s\<lparr>calls := calls s @ [(Call_Finder_ObjectReference ref, None)]\<rparr>)
      | Inr (Is_VirtualApp container) \<Rightarrow>
          (case ans_Properties (remote s) (Reference container) of
             Inl err \<Rightarrow>
               (Inl (Error err),
                s\<lparr>calls := calls s @ [(Call_Finder_ObjectReference ref, None),
                                       (Call_Properties (Reference container), Some err)]\<rparr>)
           | Inr props \<Rightarrow>
               ((if list_all (\<lambda>e. Key e \<noteq> None)
                      (takeWhile (\<lambda>e. \<not> has_key eid e)
                         (VAppConfigInfo.EntityConfig (VAppConfig props)))
                 then Inr (first_with_key eid (VAppConfigInfo.EntityConfig (VAppConfig props)))
                 else Inl (Panic NilDereference)),
                s\<lparr>calls := calls s @ [(Call_Finder_ObjectReference ref, None),
                                       (Call_Properties (Reference container), None)]\<rparr>)))"
  using assms
  by (simp add: Find_run takeWhile_sep dropWhile_sep seq_run FromID_run Properties_run lift_def
      Let_def vappcontainer_EntityFromKey_def EntityFromKey_range_eq
      split: sum.splits object_Reference.splits)

text \<open>
  C8. Find splits the resource ID in two at its first ':' and reads both parts. For an ID
  without ':' the split has one part and the read of the second part is out of range: Find
  panics before any call is made. For an ID \<open>cid:eid\<close> (no ':' in \<open>cid\<close>) Find looks the
  container up by the prefix and the entity by the suffix: it asks the finder for the
  VirtualApp reference whose Value is \<open>cid\<close> and makes no call with any other ID; when the
  finder and the property collector answer, its result is the first record of the
  container's entity list whose key value is \<open>eid\<close>, nil when there is none (the scan of
  EntityFromKey, which panics when it reaches a record whose Key is nil). The index panic
  happens exactly when the ID has no ':'.
\<close>

theorem C8_Find_split:
  "(CHR '':'' \<notin> set (ResourceId (rd s)) \<longrightarrow>
      resourceVSphereVAppEntityFind s = (Inl (Panic IndexOutOfRange), s))
   \<and> (\<forall>cid eid. ResourceId (rd s) = cid @ '':'' @ eid \<and> CHR '':'' \<notin> set cid \<longrightarrow>
        resourceVSphereVAppEntityFind s =
          (let ref = \<lparr>Type = ''VirtualApp'', Value = cid\<rparr> in
           case ans_Finder_ObjectReference (remote s) ref of
             Inl err \<Rightarrow>
               (Inl (Error err),
                s\<lparr>calls := calls s @ [(Call_Finder_ObjectReference ref, Some err)]\<rparr>)
           | Inr (Is_Other other) \<Rightarrow>
               (Inl (Panic TypeAssertion),
                s\<lparr>calls := calls s @ [(Call_Finder_ObjectReference ref, None)]\<rparr>)
           | Inr (Is_VirtualApp container) \<Rightarrow>
               (case ans_Properties (remote s) (Reference container) of
                  Inl err \<Rightarrow>
                    (Inl (Error err),
                     s\<lparr>calls := calls s @ [(Call_Finder_ObjectReference ref, None),
                                            (Call_Properties (Reference container), Some err)]\<rparr>)
                | Inr props \<Rightarrow>
                    ((if list_all (\<lambda>e. Key e \<noteq> None)
                           (takeWhile (\<lambda>e. \<not> has_key eid e)
                              (VAppConfigInfo.EntityConfig (VAppConfig props)))
                      then Inr (first_with_key eid
                                  (VAppConfigInfo.EntityConfig (VAppConfig props)))
                      else Inl (Panic NilDereference)),
                     s\<lparr>calls := calls s @ [(Call_Finder_ObjectReference ref, None),
                                            (Call_Properties (Reference container), None)]\<rparr>))))
   \<and> (fst (resourceVSphereVAppEntityFind s) = Inl (Panic IndexOutOfRange)
        \<longleftrightarrow> CHR '':'' \<notin> set (ResourceId (rd s)))"
proof (intro conjI allI impI)
  assume "CHR '':'' \<notin> set (ResourceId (rd s))"
  then show "resourceVSphereVAppEntityFind s = (Inl (Panic IndexOutOfRange), s)"
    by (simp add: Find_run)
next
  fix cid eid
  assume "ResourceId (rd s) = cid @ '':'' @ eid \<and> CHR '':'' \<notin> set cid"
  then have "ResourceId (rd s) = cid @ '':'' @ eid" and "CHR '':'' \<notin> set cid"
    by simp_all
  then show "resourceVSphereVAppEntityFind s =
          (let ref = \<lparr>Type = ''VirtualApp'', Value = cid\<rparr> in
           case ans_Finder_ObjectReference (remote s) ref of
             Inl err \<Rightarrow>
               (Inl (Error err),
                s\<lparr>calls := calls s @ [(Call_Finder_ObjectReference ref, Some err)]\<rparr>)
           | Inr (Is_Other other) \<Rightarrow>
               (Inl (Panic TypeAssertion),
                s\<lparr>calls := calls s @ [(Call_Finder_ObjectReference ref, None)]\<rparr>)
           | Inr (Is_VirtualApp container) \<Rightarrow>
               (case ans_Properties (remote s) (Reference container) of
                  Inl err \<Rightarrow>
                    (Inl (Error err),
                     s\<lparr>calls := calls s @ [(Call_Finder_ObjectReference ref, None),
                                            (Call_Properties (Reference container), Some err)]\<rparr>)
                | Inr props \<Rightarrow>
                    ((if list_all (\<lambda>e. Key e \<noteq> None)
                           (takeWhile (\<lambda>e. \<not> has_key eid e)
                              (VAppConfigInfo.EntityConfig (VAppConfig props)))
                      then Inr (first_with_key eid
                                  (VAppConfigInfo.EntityConfig (VAppConfig props)))
                      else Inl (Panic NilDereference)),
                     s\<lparr>calls := calls s @ [(Call_Finder_ObjectReference ref, None),
                                            (Call_Properties (Reference container), None)]\<rparr>)))"
    by (rule Find_lookup)
next
  show "fst (resourceVSphereVAppEntityFind s) = Inl (Panic IndexOutOfRange)
        \<longleftrightarrow> CHR '':'' \<notin> set (ResourceId (rd s))"
    using lookup_no_index_panic by (simp add: Find_run)
qed

theorem C8_Find_split_witness:
  "resourceVSphereVAppEntityFind
       (start (inventory (vapp_props []
          [entity (Some (vm_ref ''vm-3'')) 1, entity (Some (vm_ref ''vm-7'')) 2,
           entity (Some (vm_ref ''vm-7'')) 3])) ''vapp-1'' [])
     = (Inl (Panic IndexOutOfRange),
        start (inventory (vapp_props []
          [entity (Some (vm_ref ''vm-3'')) 1, entity (Some (vm_ref ''vm-7'')) 2,
           entity (Some (vm_ref ''vm-7'')) 3])) ''vapp-1'' [])
   \<and> fst (resourceVSphereVAppEntityFind
       (start (inventory (vapp_props []
          [entity (Some (vm_ref ''vm-3'')) 1, entity (Some (vm_ref ''vm-7'')) 2,
           entity (Some (vm_ref ''vm-7'')) 3])) ''vapp-1:vm-7'' []))
     = Inr (Some (entity (Some (vm_ref ''vm-7'')) 2))
   \<and> calls (snd (resourceVSphereVAppEntityFind
       (start (inventory (vapp_props []
          [entity (Some (vm_ref ''vm-3'')) 1, entity (Some (vm_ref ''vm-7'')) 2,
           entity (Some (vm_ref ''vm-7'')) 3])) ''vapp-1:vm-7'' [])))
     = [(Call_Finder_ObjectReference vapp_ref, None), (Call_Properties vapp_ref, None)]
   \<and> fst (resourceVSphereVAppEntityFind
       (start (inventory (vapp_props []
          [entity (Some (vm_ref ''vm-3'')) 1, entity (Some (vm_ref ''vm-7'')) 2,
           entity (Some (vm_ref ''vm-7'')) 3])) ''vapp-1:vm-9'' []))
     = Inr None
   \<and> resourceVSphereVAppEntityFind
       (start (inventory (vapp_props []
          [entity (Some (vm_ref ''vm-3'')) 1, entity (Some (vm_ref ''vm-7'')) 2,
           entity (Some (vm_ref ''vm-7'')) 3])) ''vapp-2:vm-7'' [])
     = (Inl (Error (ManagedObjectNotFound ''vapp-2'')),
        (start (inventory (vapp_props []
          [entity (Some (vm_ref ''vm-3'')) 1, entity (Some (vm_ref ''vm-7'')) 2,
           entity (Some (vm_ref ''vm-7'')) 3])) ''vapp-2:vm-7'' [])
        \<lparr>calls := [(Call_Finder_ObjectReference \<lparr>Type = ''VirtualApp'', Value = ''vapp-2''\<rparr>,
                    Some (ManagedObjectNotFound ''vapp-2''))]\<rparr>)"
proof -
  let ?r = "inventory (vapp_props []
          [entity (Some (vm_ref ''vm-3'')) 1, entity (Some (vm_ref ''vm-7'')) 2,
           entity (Some (vm_ref ''vm-7'')) 3])"
  have a: "resourceVSphereVAppEntityFind (start ?r ''vapp-1'' [])
      = (Inl (Panic IndexOutOfRange), start ?r ''vapp-1'' [])"
    using C8_Find_split [of "start ?r ''vapp-1'' []"] by (simp add: start_def)
  have split7: "ResourceId (rd (start ?r ''vapp-1:vm-7'' [])) = ''vapp-1'' @ '':'' @ ''vm-7''
        \<and> CHR '':'' \<notin> set ''vapp-1''"
    and split9: "ResourceId (rd (start ?r ''vapp-1:vm-9'' [])) = ''vapp-1'' @ '':'' @ ''vm-9''
        \<and> CHR '':'' \<notin> set ''vapp-1''"
    and split2: "ResourceId (rd (start ?r ''vapp-2:vm-7'' [])) = ''vapp-2'' @ '':'' @ ''vm-7''
        \<and> CHR '':'' \<notin> set ''vapp-2''"
    by (simp_all add: start_def)
  from C8_Find_split [of "start ?r ''vapp-1:vm-7'' []", THEN conjunct2, THEN conjunct1,
      rule_format, OF split7]
  have b: "fst (resourceVSphereVAppEntityFind (start ?r ''vapp-1:vm-7'' []))
      = Inr (Some (entity (Some (vm_ref ''vm-7'')) 2))"
    and c: "calls (snd (resourceVSphereVAppEntityFind (start ?r ''vapp-1:vm-7'' [])))
      = [(Call_Finder_ObjectReference vapp_ref, None), (Call_Properties vapp_ref, None)]"
    by (simp_all add: Let_def example_defs first_with_key_def has_key_def)
  from C8_Find_split [of "start ?r ''vapp-1:vm-9'' []", THEN conjunct2, THEN conjunct1,
      rule_format, OF split9]
  have d: "fst (resourceVSphereVAppEntityFind (start ?r ''vapp-1:vm-9'' [])) = Inr None"
    by (simp add: Let_def example_defs first_with_key_def has_key_def)
  from C8_Find_split [of "start ?r ''vapp-2:vm-7'' []", THEN conjunct2, THEN conjunct1,
      rule_format, OF split2]
  have e: "resourceVSphereVAppEntityFind (start ?r ''vapp-2:vm-7'' [])
     = (Inl (Error (ManagedObjectNotFound ''vapp-2'')),
        (start ?r ''vapp-2:vm-7'' [])
        \<lparr>calls := [(Call_Finder_ObjectReference \<lparr>Type = ''VirtualApp'', Value = ''vapp-2''\<rparr>,
                    Some (ManagedObjectNotFound ''vapp-2''))]\<rparr>)"
    by (simp add: Let_def example_defs)
  from a b c d e show ?thesis by simp
qed


subsection \<open>Create of vsphere_vapp_entity\<close>

lemma to_int32_in_range:
  "- (2 ^ 31) \<le> i \<Longrightarrow> i < 2 ^ 31 \<Longrightarrow> sint (to_int32 i) = i"
  unfolding to_int32_def by (simp add: signed_of_int signed_take_bit_int_eq_self)

lemma EntityCreate_run:
  assumes "ans_ValidateVirtualCenter (remote s) = None"
    and "ans_Finder_ObjectReference (remote s)
           \<lparr>Type = ''VirtualApp'', Value = Get_string (rd s) ''container_id''\<rparr>
         = Inr (Is_VirtualApp container)"
    and "ans_Properties (remote s) (Reference container) = Inr mo"
    and "ans_virtualmachine_FromUUID (remote s) (Get_string (rd s) ''target_id'') = Inr target"
    and "ans_virtualmachine_Properties (remote s) target = Inr vmp"
  shows "resourceVSphereVAppEntityCreate s =
     (let entityConfig =
            \<lparr>Key = Some (ManagedEntity vmp),
             DestroyWithParent = None,
             StartOrder = to_int32 (Get_int (rd s) ''start_order''),
             StartAction = Get_string (rd s) ''start_action'',
             StartDelay = to_int32 (Get_int (rd s) ''start_delay''),
             StopAction = Get_string (rd s) ''stop_action'',
             StopDelay = to_int32 (Get_int (rd s) ''stop_delay''),
             WaitingForGuest = GetBoolPtr (rd s) ''wait_for_guest''\<rparr>;
          updateSpec =
            \<lparr>EntityConfig = VAppConfigInfo.EntityConfig (VAppConfig mo) @ [entityConfig]\<rparr>
      in ((case ans_UpdateConfig (remote s) container updateSpec of
             Some err \<Rightarrow> Inl (Error err) | None \<Rightarrow> Inr ()),
          s\<lparr>rd := (rd s)\<lparr>ResourceId :=
                 Value (Reference container) @ '':'' @ Value (Reference target)\<rparr>,
            calls := calls s @
              [(Call_ValidateVirtualCenter, None),
               (Call_Finder_ObjectReference
                  \<lparr>Type = ''VirtualApp'', Value = Get_string (rd s) ''container_id''\<rparr>, None),
               (Call_Properties (Reference container), None),
               (Call_virtualmachine_FromUUID (Get_string (rd s) ''target_id''), None),
               (Call_virtualmachine_Properties target, None),
               (Call_UpdateConfig container updateSpec,
                ans_UpdateConfig (remote s) container updateSpec)]\<rparr>))"
  using assms by (simp add: resourceVSphereVAppEntityCreate_def runs)

text \<open>
  C1. Whatever the configuration, once its lookups have succeeded (the client, the
  container by \<open>container_id\<close>, the container's properties, the target machine by
  \<open>target_id\<close> and its properties) the Create handler of \<^verbatim>\<open>vsphere_vapp_entity\<close> builds
  one entity config record: StartOrder from \<open>start_order\<close>, StartAction from \<open>start_action\<close>,
  StartDelay from \<open>start_delay\<close>, StopAction from \<open>stop_action\<close>, StopDelay from
  \<open>stop_delay\<close>, WaitingForGuest from \<open>wait_for_guest\<close> (the three integers through Go's
  \<^verbatim>\<open>int32(...)\<close>, which \<open>to_int32_in_range\<close> shows to keep every value of 32 bits), and
  the Key from the target machine. It appends the record to the EntityConfig list the
  container has, and sends that list as the update spec in its one UpdateConfig call, whose
  outcome it returns. (The revision of the handler before this one, earlier in the same
  file, read \<open>start_action\<close> and \<open>start_delay\<close> for the two Stop fields and set no Key.)
\<close>

theorem C1_Create_entity_config:
  assumes "ans_ValidateVirtualCenter (remote s) = None"
    and "ans_Finder_ObjectReference (remote s)
           \<lparr>Type = ''VirtualApp'', Value = Get_string (rd s) ''container_id''\<rparr>
         = Inr (Is_VirtualApp container)"
    and "ans_Properties (remote s) (Reference container) = Inr mo"
    and "ans_virtualmachine_FromUUID (remote s) (Get_string (rd s) ''target_id'') = Inr target"
    and "ans_virtualmachine_Properties (remote s) target = Inr vmp"
  shows "resourceVSphereVAppEntityCreate s =
     (let entityConfig =
            \<lparr>Key = Some (ManagedEntity vmp),
             DestroyWithParent = None,
             StartOrder = to_int32 (Get_int (rd s) ''start_order''),
             StartAction = Get_string (rd s) ''start_action'',
             StartDelay = to_int32 (Get_int (rd s) ''start_delay''),
             StopAction = Get_string (rd s) ''stop_action'',
             StopDelay = to_int32 (Get_int (rd s) ''stop_delay''),
             WaitingForGuest = GetBoolPtr (rd s) ''wait_for_guest''\<rparr>;
          updateSpec =
            \<lparr>EntityConfig = VAppConfigInfo.EntityConfig (VAppConfig mo) @ [entityConfig]\<rparr>
      in ((case ans_UpdateConfig (remote s) container updateSpec of
             Some err \<Rightarrow> Inl (Error err) | None \<Rightarrow> Inr ()),
          s\<lparr>rd := (rd s)\<lparr>ResourceId :=
                 Value (Reference container) @ '':'' @ Value (Reference target)\<rparr>,
            calls := calls s @
              [(Call_ValidateVirtualCenter, None),
               (Call_Finder_ObjectReference
                  \<lparr>Type = ''VirtualApp'', Value = Get_string (rd s) ''container_id''\<rparr>, None),
               (Call_Properties (Reference container), None),
               (Call_virtualmachine_FromUUID (Get_string (rd s) ''target_id''), None),
               (Call_virtualmachine_Properties target, None),
               (Call_UpdateConfig container updateSpec,
                ans_UpdateConfig (remote s) container updateSpec)]\<rparr>))"
  using assms by (rule EntityCreate_run)

theorem C1_Create_entity_config_witness:
  "fst (resourceVSphereVAppEntityCreate
         (start (inventory (vapp_props [] [entity (Some (vm_ref ''vm-3'')) 1])) [] entity_config))
     = Inr ()
   \<and> last (calls (snd (resourceVSphereVAppEntityCreate
         (start (inventory (vapp_props [] [entity (Some (vm_ref ''vm-3'')) 1])) [] entity_config))))
     = (Call_UpdateConfig vapp_obj
          \<lparr>EntityConfig =
             [entity (Some (vm_ref ''vm-3'')) 1,
              \<lparr>Key = Some (vm_ref ''vm-7''), DestroyWithParent = None, StartOrder = 2,
               StartAction = ''powerOn'', StartDelay = 30, StopAction = ''guestShutdown'',
               StopDelay = 60, WaitingForGuest = Some True\<rparr>]\<rparr>,
        None)"
proof -
  let ?props = "vapp_props [] [entity (Some (vm_ref ''vm-3'')) 1]"
  let ?s = "start (inventory ?props) [] entity_config"
  have h1: "ans_ValidateVirtualCenter (remote ?s) = None"
    by (simp add: example_defs)
  have h2: "ans_Finder_ObjectReference (remote ?s)
           \<lparr>Type = ''VirtualApp'', Value = Get_string (rd ?s) ''container_id''\<rparr>
         = Inr (Is_VirtualApp vapp_obj)"
    by (simp add: example_defs getters)
  have h3: "ans_Properties (remote ?s) (Reference vapp_obj) = Inr ?props"
    by (simp add: example_defs)
  have h4: "ans_virtualmachine_FromUUID (remote ?s) (Get_string (rd ?s) ''target_id'') = Inr vm_obj"
    by (simp add: example_defs)
  have h5: "ans_virtualmachine_Properties (remote ?s) vm_obj
      = Inr \<lparr>ManagedEntity = vm_ref ''vm-7''\<rparr>"
    by (simp add: example_defs)
  from C1_Create_entity_config [OF h1 h2 h3 h4 h5] show ?thesis
    by (simp add: example_defs getters Let_def)
qed

subsection \<open>Delete of vsphere_vapp_entity\<close>

lemma EntityDelete_range_eq:
  "EntityDelete_range vmo es el =
     (if list_all (\<lambda>e. Key e \<noteq> None) es
      then Inr (el @ filter (\<lambda>e. Key e \<noteq> Some vmo) es)
      else Inl (Panic NilDereference))"
  by (induction es arbitrary: el) (auto split: option.splits)

text \<open>
  C5, as stated, fails: the container below holds a record whose Key is nil and the record
  of the target \<open>vm-7\<close>. The claim has Delete send an update spec that keeps the first record
  (its Key differs from the target's reference); the comparison \<^verbatim>\<open>*e.Key != vmo\<close>
  dereferences the nil Key, Delete panics after its five lookups, and no update is sent.
\<close>

theorem C5_nil_key_counterexample:
  "fst (resourceVSphereVAppEntityDelete
         (start (inventory (vapp_props [] [entity None 1, entity (Some (vm_ref ''vm-7'')) 2]))
            ''vapp-1:vm-7'' entity_config))
     = Inl (Panic NilDereference)
   \<and> calls (snd (resourceVSphereVAppEntityDelete
         (start (inventory (vapp_props [] [entity None 1, entity (Some (vm_ref ''vm-7'')) 2]))
            ''vapp-1:vm-7'' entity_config)))
     = [(Call_ValidateVirtualCenter, None),
        (Call_Finder_ObjectReference vapp_ref, None),
        (Call_Properties vapp_ref, None),
        (Call_virtualmachine_FromUUID ''4207f0a1'', None),
        (Call_virtualmachine_Properties vm_obj, None)]
   \<and> filter (\<lambda>e. Key e \<noteq> Some (vm_ref ''vm-7''))
        [entity None 1, entity (Some (vm_ref ''vm-7'')) 2] = [entity None 1]"
  by (simp add: resourceVSphereVAppEntityDelete_def runs example_defs getters)


text \<open>
  C5, amended. For every container state in which every entity record has a Key, and every
  target virtual machine, the Delete handler of \<^verbatim>\<open>vsphere_vapp_entity\<close> (its lookups
  having succeeded) sends one update spec, whose EntityConfig list holds exactly the
  container's records whose Key differs from the target's managed object reference,
  unchanged and in their order; only the records whose Key equals that reference are
  removed. When a record has no Key, the handler panics on it and sends no update.
\<close>

theorem C5_Delete_filters:
  assumes "ans_ValidateVirtualCenter (remote s) = None"
    and "ans_Finder_ObjectReference (remote s)
           \<lparr>Type = ''VirtualApp'', Value = Get_string (rd s) ''container_id''\<rparr>
         = Inr (Is_VirtualApp vc)"
    and "ans_Properties (remote s) (Reference vc) = Inr vcp"
    and "ans_virtualmachine_FromUUID (remote s) (Get_string (rd s) ''target_id'') = Inr vm"
    and "ans_virtualmachine_Properties (remote s) vm = Inr vmp"
  shows "resourceVSphereVAppEntityDelete s =
     (let lookups =
            [(Call_ValidateVirtualCenter, None),
             (Call_Finder_ObjectReference
                \<lparr>Type = ''VirtualApp'', Value = Get_string (rd s) ''container_id''\<rparr>, None),
             (Call_Properties (Reference vc), None),
             (Call_virtualmachine_FromUUID (Get_string (rd s) ''target_id''), None),
             (Call_virtualmachine_Properties vm, None)];
          updateSpec =
            \<lparr>EntityConfig =
               filter (\<lambda>e. Key e \<noteq> Some (ManagedEntity vmp))
                 (VAppConfigInfo.EntityConfig (VAppConfig vcp))\<rparr>
      in if list_all (\<lambda>e. Key e \<noteq> None) (VAppConfigInfo.EntityConfig (VAppConfig vcp))
         then ((case ans_UpdateConfig (remote s) vc updateSpec of
                  Some err \<Rightarrow> Inl (Error err) | None \<Rightarrow> Inr ()),
               s\<lparr>calls := calls s @ lookups @
                    [(Call_UpdateConfig vc updateSpec, ans_UpdateConfig (remote s) vc updateSpec)]\<rparr>)
         else (Inl (Panic NilDereference), s\<lparr>calls := calls s @ lookups\<rparr>))"
  using assms by (simp add: resourceVSphereVAppEntityDelete_def runs EntityDelete_range_eq)


theorem C5_Delete_filters_witness:
  "fst (resourceVSphereVAppEntityDelete
         (start (inventory (vapp_props []
            [entity (Some (vm_ref ''vm-3'')) 1, entity (Some (vm_ref ''vm-7'')) 2,
             entity (Some (vm_ref ''vm-9'')) 3])) ''vapp-1:vm-7'' entity_config))
     = Inr ()
   \<and> last (calls (snd (resourceVSphereVAppEntityDelete
         (start (inventory (vapp_props []
            [entity (Some (vm_ref ''vm-3'')) 1, entity (Some (vm_ref ''vm-7'')) 2,
             entity (Some (vm_ref ''vm-9'')) 3])) ''vapp-1:vm-7'' entity_config))))
     = (Call_UpdateConfig vapp_obj
          \<lparr>EntityConfig =
             [entity (Some (vm_ref ''vm-3'')) 1, entity (Some (vm_ref ''vm-9'')) 3]\<rparr>,
        None)"
proof -
  let ?props = "vapp_props []
            [entity (Some (vm_ref ''vm-3'')) 1, entity (Some (vm_ref ''vm-7'')) 2,
             entity (Some (vm_ref ''vm-9'')) 3]"
  let ?s = "start (inventory ?props) ''vapp-1:vm-7'' entity_config"
  have h1: "ans_ValidateVirtualCenter (remote ?s) = None"
    by (simp add: example_defs)
  have h2: "ans_Finder_ObjectReference (remote ?s)
           \<lparr>Type = ''VirtualApp'', Value = Get_string (rd ?s) ''container_id''\<rparr>
         = Inr (Is_VirtualApp vapp_obj)"
    by (simp add: example_defs getters)
  have h3: "ans_Properties (remote ?s) (Reference vapp_obj) = Inr ?props"
    by (simp add: example_defs)
  have h4: "ans_virtualmachine_FromUUID (remote ?s) (Get_string (rd ?s) ''target_id'') = Inr vm_obj"
    by (simp add: example_defs)
  have h5: "ans_virtualmachine_Properties (remote ?s) vm_obj
      = Inr \<lparr>ManagedEntity = vm_ref ''vm-7''\<rparr>"
    by (simp add: example_defs)
  from C5_Delete_filters [OF h1 h2 h3 h4 h5] show ?thesis
    by (simp add: example_defs getters Let_def)
qed


subsection \<open>Delete of vsphere_vapp_container\<close>

lemma HasChildren_run:
  "vappcontainer_HasChildren va s =
     (case ans_Properties (remote s) (Reference va) of
        Inl err \<Rightarrow> (Inl (Error err), s\<lparr>calls := calls s @ [(Call_Properties (Reference va), Some err)]\<rparr>)
      | Inr props \<Rightarrow>
          (Inr (Vm (ResourcePool props) \<noteq> []
                \<or> mo_ResourcePool.ResourcePool (ResourcePool props) \<noteq> []),
           s\<lparr>calls := calls s @ [(Call_Properties (Reference va), None)]\<rparr>))"
  by (simp add: vappcontainer_HasChildren_def runs split: sum.splits)

lemma ValidateEmpty_run:
  "resourceVSphereVAppContainerValidateEmpty va s =
     (case ans_Properties (remote s) (Reference va) of
        Inl err \<Rightarrow>
          (Inl (Error (Errorf ''error checking contents of resource pool: %s'' [ArgError err])),
           s\<lparr>calls := calls s @ [(Call_Properties (Reference va), Some err)]\<rparr>)
      | Inr props \<Rightarrow>
          (if Vm (ResourcePool props) \<noteq> []
                \<or> mo_ResourcePool.ResourcePool (ResourcePool props) \<noteq> []
           then Inl (Error (Errorf
                 ''resource pool %q still has children resources. Please move or remove all items before deleting''
                 [ArgString (InventoryPath va)]))
           else Inr (),
           s\<lparr>calls := calls s @ [(Call_Properties (Reference va), None)]\<rparr>))"
  by (simp add: resourceVSphereVAppContainerValidateEmpty_def HasChildren_run split: sum.splits)

lemma Delete_run:
  "vappcontainer_Delete va s =
     (case ans_Destroy (remote s) va of
        Inl err \<Rightarrow> (Inl (Error err), s\<lparr>calls := calls s @ [(Call_Destroy va, Some err)]\<rparr>)
      | Inr t \<Rightarrow>
          ((case ans_Wait (remote s) t of Some err \<Rightarrow> Inl (Error err) | None \<Rightarrow> Inr ()),
           s\<lparr>calls := calls s @ [(Call_Destroy va, None), (Call_Wait t, ans_Wait (remote s) t)]\<rparr>))"
  by (simp add: vappcontainer_Delete_def seq_run api_run status_def split: sum.splits option.splits)

lemma ContainerDelete_run:
  "resourceVSphereVAppContainerDelete s =
     (let ref = \<lparr>Type = ''VirtualApp'', Value = ResourceId (rd s)\<rparr> in
      case ans_ValidateVirtualCenter (remote s) of
        Some err \<Rightarrow>
          (Inl (Error err), s\<lparr>calls := calls s @ [(Call_ValidateVirtualCenter, Some err)]\<rparr>)
      | None \<Rightarrow>
         (case ans_Finder_ObjectReference (remote s) ref of
            Inl err \<Rightarrow>
              (Inl (Error err),
               s\<lparr>calls := calls s @ [(Call_ValidateVirtualCenter, None),
                                      (Call_Finder_ObjectReference ref, Some err)]\<rparr>)
          | Inr (Is_Other other) \<Rightarrow>
              (Inl (Panic TypeAssertion),
               s\<lparr>calls := calls s @ [(Call_ValidateVirtualCenter, None),
                                      (Call_Finder_ObjectReference ref, None)]\<rparr>)
          | Inr (Is_VirtualApp va) \<Rightarrow>
             (case resourceVSphereVAppContainerValidateEmpty va
                     (s\<lparr>calls := calls s @ [(Call_ValidateVirtualCenter, None),
                                            (Call_Finder_ObjectReference ref, None)]\<rparr>) of
                (Inl e, s') \<Rightarrow> (Inl e, s')
              | (Inr u, s') \<Rightarrow> vappcontainer_Delete va s')))"
  by (simp add: resourceVSphereVAppContainerDelete_def runs
      split: sum.splits option.splits object_Reference.splits)

lemma destroy_called_simps:
  "destroy_called [] = False"
  "destroy_called ((c, r) # t) = (is_Destroy c \<or> destroy_called t)"
  by (simp_all add: destroy_called_def)

lemma is_Destroy_simps:
  "is_Destroy (Call_Destroy va)"
  "\<not> is_Destroy Call_ValidateVirtualCenter"
  "\<not> is_Destroy (Call_Finder_ObjectReference ref)"
  "\<not> is_Destroy (Call_Properties ref)"
  "\<not> is_Destroy (Call_Wait t)"
  by (simp_all add: is_Destroy_def)

lemma new_calls_append: "new_calls s (s'\<lparr>calls := calls s @ t\<rparr>) = t"
  by (simp add: new_calls_def)

lemma ContainerDelete_children:
  assumes "ans_Finder_ObjectReference (remote s)
             \<lparr>Type = ''VirtualApp'', Value = ResourceId (rd s)\<rparr> = Inr (Is_VirtualApp va)"
    and "ans_Properties (remote s) (Reference va) = Inr props"
    and "Vm (ResourcePool props) \<noteq> [] \<or> mo_ResourcePool.ResourcePool (ResourcePool props) \<noteq> []"
  shows "fst (resourceVSphereVAppContainerDelete s) =
           Inl (Error (case ans_ValidateVirtualCenter (remote s) of
                         Some err \<Rightarrow> err
                       | None \<Rightarrow> Errorf
                 ''resource pool %q still has children resources. Please move or remove all items before deleting''
                 [ArgString (InventoryPath va)]))"
    and "\<not> destroy_called (new_calls s (snd (resourceVSphereVAppContainerDelete s)))"
  using assms
  by (auto simp: ContainerDelete_run ValidateEmpty_run Let_def new_calls_append
      destroy_called_simps is_Destroy_simps split: option.splits)

lemma ContainerDelete_destroy:
  assumes "destroy_called (new_calls s (snd (resourceVSphereVAppContainerDelete s)))"
  shows "\<exists>va props.
           ans_Finder_ObjectReference (remote s)
             \<lparr>Type = ''VirtualApp'', Value = ResourceId (rd s)\<rparr> = Inr (Is_VirtualApp va)
         \<and> ans_Properties (remote s) (Reference va) = Inr props
         \<and> Vm (ResourcePool props) = []
         \<and> mo_ResourcePool.ResourcePool (ResourcePool props) = []
         \<and> fst (vappcontainer_HasChildren va s) = Inr False"
proof -
  from assms obtain va props where
    "ans_Finder_ObjectReference (remote s)
       \<lparr>Type = ''VirtualApp'', Value = ResourceId (rd s)\<rparr> = Inr (Is_VirtualApp va)"
    "ans_Properties (remote s) (Reference va) = Inr props"
    "Vm (ResourcePool props) = []"
    "mo_ResourcePool.ResourcePool (ResourcePool props) = []"
    by (auto simp: ContainerDelete_run ValidateEmpty_run Let_def
        new_calls_append destroy_called_simps is_Destroy_simps
        split: option.split_asm sum.split_asm object_Reference.split_asm if_split_asm)
  then show ?thesis
    by (auto simp: HasChildren_run)
qed


lemma ContainerDelete_empty_example:
  "calls (snd (resourceVSphereVAppContainerDelete (start (inventory (vapp_props [] [])) ''vapp-1'' [])))
     = [(Call_ValidateVirtualCenter, None),
        (Call_Finder_ObjectReference vapp_ref, None),
        (Call_Properties vapp_ref, None),
        (Call_Destroy vapp_obj, None),
        (Call_Wait (Task vapp_ref), None)]"
  by (simp add: ContainerDelete_run ValidateEmpty_run Delete_run Let_def example_defs)

text \<open>
  C4. Take the vApp container the resource ID resolves to. When its properties list at
  least one virtual machine or at least one child resource pool, the Delete handler of
  \<^verbatim>\<open>vsphere_vapp_container\<close> returns an error (the one of the client check if that fails,
  the "still has children" error otherwise) and the calls it made do not include the
  destroy call: the container and its children are left as they are. Conversely, whenever
  the destroy call is among the calls of the handler, the container was found, its
  properties list no virtual machine and no child pool, and HasChildren reports false.
\<close>

theorem C4_Delete_guards_children:
  "(\<forall>va props.
      ans_Finder_ObjectReference (remote s)
        \<lparr>Type = ''VirtualApp'', Value = ResourceId (rd s)\<rparr> = Inr (Is_VirtualApp va)
      \<and> ans_Properties (remote s) (Reference va) = Inr props
      \<and> (Vm (ResourcePool props) \<noteq> []
           \<or> mo_ResourcePool.ResourcePool (ResourcePool props) \<noteq> [])
      \<longrightarrow>
        fst (resourceVSphereVAppContainerDelete s) =
           Inl (Error (case ans_ValidateVirtualCenter (remote s) of
                         Some err \<Rightarrow> err
                       | None \<Rightarrow> Errorf
                 ''resource pool %q still has children resources. Please move or remove all items before deleting''
                 [ArgString (InventoryPath va)]))
        \<and> \<not> destroy_called (new_calls s (snd (resourceVSphereVAppContainerDelete s))))
   \<and> (destroy_called (new_calls s (snd (resourceVSphereVAppContainerDelete s)))
      \<longrightarrow>
        (\<exists>va props.
           ans_Finder_ObjectReference (remote s)
             \<lparr>Type = ''VirtualApp'', Value = ResourceId (rd s)\<rparr> = Inr (Is_VirtualApp va)
         \<and> ans_Properties (remote s) (Reference va) = Inr props
         \<and> Vm (ResourcePool props) = []
         \<and> mo_ResourcePool.ResourcePool (ResourcePool props) = []
         \<and> fst (vappcontainer_HasChildren va s) = Inr False))"
proof (intro conjI allI impI)
  fix va props
  assume a: "ans_Finder_ObjectReference (remote s)
        \<lparr>Type = ''VirtualApp'', Value = ResourceId (rd s)\<rparr> = Inr (Is_VirtualApp va)
      \<and> ans_Properties (remote s) (Reference va) = Inr props
      \<and> (Vm (ResourcePool props) \<noteq> []
           \<or> mo_ResourcePool.ResourcePool (ResourcePool props) \<noteq> [])"
  then show "fst (resourceVSphereVAppContainerDelete s) =
           Inl (Error (case ans_ValidateVirtualCenter (remote s) of
                         Some err \<Rightarrow> err
                       | None \<Rightarrow> Errorf
                 ''resource pool %q still has children resources. Please move or remove all items before deleting''
                 [ArgString (InventoryPath va)]))"
    using ContainerDelete_children(1) [of s va props] by blast
  from a show "\<not> destroy_called (new_calls s (snd (resourceVSphereVAppContainerDelete s)))"
    using ContainerDelete_children(2) [of s va props] by blast
next
  assume "destroy_called (new_calls s (snd (resourceVSphereVAppContainerDelete s)))"
  then show "\<exists>va props.
           ans_Finder_ObjectReference (remote s)
             \<lparr>Type = ''VirtualApp'', Value = ResourceId (rd s)\<rparr> = Inr (Is_VirtualApp va)
         \<and> ans_Properties (remote s) (Reference va) = Inr props
         \<and> Vm (ResourcePool props) = []
         \<and> mo_ResourcePool.ResourcePool (ResourcePool props) = []
         \<and> fst (vappcontainer_HasChildren va s) = Inr False"
    by (rule ContainerDelete_destroy)
qed

theorem C4_Delete_guards_children_witness:
  "fst (resourceVSphereVAppContainerDelete
          (start (inventory (vapp_props [vm_ref ''vm-7''] [])) ''vapp-1'' []))
     = Inl (Error (Errorf
          ''resource pool %q still has children resources. Please move or remove all items before deleting''
          [ArgString ''/dc1/vm/vapp-1'']))
   \<and> \<not> destroy_called (new_calls (start (inventory (vapp_props [vm_ref ''vm-7''] [])) ''vapp-1'' [])
         (snd (resourceVSphereVAppContainerDelete
            (start (inventory (vapp_props [vm_ref ''vm-7''] [])) ''vapp-1'' []))))
   \<and> destroy_called (new_calls (start (inventory (vapp_props [] [])) ''vapp-1'' [])
         (snd (resourceVSphereVAppContainerDelete
            (start (inventory (vapp_props [] [])) ''vapp-1'' []))))
   \<and> fst (vappcontainer_HasChildren vapp_obj (start (inventory (vapp_props [] [])) ''vapp-1'' []))
     = Inr False"
proof -
  let ?full = "start (inventory (vapp_props [vm_ref ''vm-7''] [])) ''vapp-1'' []"
  let ?empty = "start (inventory (vapp_props [] [])) ''vapp-1'' []"
  have h: "ans_Finder_ObjectReference (remote ?full)
        \<lparr>Type = ''VirtualApp'', Value = ResourceId (rd ?full)\<rparr> = Inr (Is_VirtualApp vapp_obj)
      \<and> ans_Properties (remote ?full) (Reference vapp_obj) = Inr (vapp_props [vm_ref ''vm-7''] [])
      \<and> (Vm (ResourcePool (vapp_props [vm_ref ''vm-7''] [])) \<noteq> []
           \<or> mo_ResourcePool.ResourcePool (ResourcePool (vapp_props [vm_ref ''vm-7''] [])) \<noteq> [])"
    by (simp add: example_defs)
  have v: "ans_ValidateVirtualCenter (remote ?full) = None"
    by (simp add: example_defs)
  from C4_Delete_guards_children [of ?full] h
  have a: "fst (resourceVSphereVAppContainerDelete ?full) =
           Inl (Error (case ans_ValidateVirtualCenter (remote ?full) of
                         Some err \<Rightarrow> err
                       | None \<Rightarrow> Errorf
                 ''resource pool %q still has children resources. Please move or remove all items before deleting''
                 [ArgString (InventoryPath vapp_obj)]))
        \<and> \<not> destroy_called (new_calls ?full (snd (resourceVSphereVAppContainerDelete ?full)))"
    by blast
  have d: "destroy_called (new_calls ?empty (snd (resourceVSphereVAppContainerDelete ?empty)))"
    by (simp add: new_calls_def ContainerDelete_empty_example destroy_called_simps is_Destroy_simps)
      (simp add: start_def destroy_called_simps is_Destroy_simps)
  with C4_Delete_guards_children [of ?empty]
  obtain va props where
    "ans_Finder_ObjectReference (remote ?empty)
             \<lparr>Type = ''VirtualApp'', Value = ResourceId (rd ?empty)\<rparr> = Inr (Is_VirtualApp va)"
    "fst (vappcontainer_HasChildren va ?empty) = Inr False"
    by blast
  then have e: "fst (vappcontainer_HasChildren vapp_obj ?empty) = Inr False"
    by (simp add: example_defs)
  from a v d e show ?thesis
    by (simp add: vapp_obj_def)
qed


subsection \<open>Read of vsphere_vapp_container\<close>

lemma Set_attr_accepted:
  "ans_Set (remote s) k v = None \<Longrightarrow>
     Set_attr k v s = (Inr (), s\<lparr>rd := (rd s)\<lparr>attrs := (attrs (rd s))(k \<mapsto> v)\<rparr>\<rparr>)"
  by (simp add: Set_attr_def)

lemma SetBatch_accepted:
  "(\<And>k v. ans_Set (remote s) k v = None) \<Longrightarrow>
     SetBatch kvs s =
       (Inr (), s\<lparr>rd := (rd s)\<lparr>attrs := fold (\<lambda>(k, v) m. m(k \<mapsto> v)) kvs (attrs (rd s))\<rparr>\<rparr>)"
proof (induction kvs arbitrary: s)
  case Nil
  then show ?case by (simp add: ret_def)
next
  case (Cons kv kvs)
  obtain k v where kv: "kv = (k, v)" by (cases kv)
  let ?s' = "s\<lparr>rd := (rd s)\<lparr>attrs := (attrs (rd s))(k \<mapsto> v)\<rparr>\<rparr>"
  have "\<And>k v. ans_Set (remote ?s') k v = None"
    using Cons.prems by simp
  from Cons.IH [OF this] Cons.prems show ?case
    by (simp add: kv Set_attr_accepted)
qed

lemma flatten_accepted:
  assumes "\<And>k v. ans_Set (remote s) k v = None"
  shows "flattenVAppContainerConfigSpec obj s =
     (Inr (),
      s\<lparr>rd := (rd s)\<lparr>attrs := (attrs (rd s))
         (''memory_reservation'' \<mapsto> Reservation (MemoryAllocation obj),
          ''memory_expandable'' \<mapsto> ExpandableReservation (MemoryAllocation obj),
          ''memory_limit'' \<mapsto> Limit (MemoryAllocation obj),
          ''memory_shares'' \<mapsto> SharesInfo.Shares (Shares (MemoryAllocation obj)),
          ''memory_share_level'' \<mapsto> Level (Shares (MemoryAllocation obj)),
          ''cpu_reservation'' \<mapsto> Reservation (CpuAllocation obj),
          ''cpu_expandable'' \<mapsto> ExpandableReservation (CpuAllocation obj),
          ''cpu_limit'' \<mapsto> Limit (CpuAllocation obj),
          ''cpu_shares'' \<mapsto> SharesInfo.Shares (Shares (CpuAllocation obj)),
          ''cpu_share_level'' \<mapsto> Level (Shares (CpuAllocation obj)))\<rparr>\<rparr>)"
proof -
  let ?s1 = "s\<lparr>rd := (rd s)\<lparr>attrs := fold (\<lambda>(k, v) m. m(k \<mapsto> v))
       [(''memory_reservation'', Reservation (MemoryAllocation obj)),
        (''memory_expandable'', ExpandableReservation (MemoryAllocation obj)),
        (''memory_limit'', Limit (MemoryAllocation obj)),
        (''memory_shares'', SharesInfo.Shares (Shares (MemoryAllocation obj))),
        (''memory_share_level'', Level (Shares (MemoryAllocation obj)))] (attrs (rd s))\<rparr>\<rparr>"
  have m: "flattenVAppContainerMemoryAllocation (MemoryAllocation obj) s = (Inr (), ?s1)"
    unfolding flattenVAppContainerMemoryAllocation_def
    by (rule SetBatch_accepted) (rule assms)
  have "\<And>k v. ans_Set (remote ?s1) k v = None"
    using assms by simp
  then have c: "flattenVAppContainerCPUAllocation (CpuAllocation obj) ?s1 =
     (Inr (), ?s1\<lparr>rd := (rd ?s1)\<lparr>attrs := fold (\<lambda>(k, v) m. m(k \<mapsto> v))
       [(''cpu_reservation'', Reservation (CpuAllocation obj)),
        (''cpu_expandable'', ExpandableReservation (CpuAllocation obj)),
        (''cpu_limit'', Limit (CpuAllocation obj)),
        (''cpu_shares'', SharesInfo.Shares (Shares (CpuAllocation obj))),
        (''cpu_share_level'', Level (Shares (CpuAllocation obj)))] (attrs (rd ?s1))\<rparr>\<rparr>)"
    unfolding flattenVAppContainerCPUAllocation_def
    by (rule SetBatch_accepted)
  from c show ?thesis
    by (simp add: flattenVAppContainerConfigSpec_def seq_run m)
qed

lemma ReadTags_run:
  "resourceVSphereVAppContainerReadTags va s =
     (case ans_TagsClient (remote s) of
        Inl err \<Rightarrow> (Inr (), s\<lparr>calls := calls s @ [(Call_TagsClient, Some err)]\<rparr>)
      | Inr tc \<Rightarrow>
         (case ans_readTagsForResource (remote s) va (rd s) of
            Inl err \<Rightarrow>
              (Inl (Error err),
               s\<lparr>calls := calls s @ [(Call_TagsClient, None),
                                      (Call_readTagsForResource va, Some err)]\<rparr>)
          | Inr d' \<Rightarrow>
              (Inr (),
               s\<lparr>rd := d',
                  calls := calls s @ [(Call_TagsClient, None),
                                      (Call_readTagsForResource va, None)]\<rparr>)))"
  by (simp add: resourceVSphereVAppContainerReadTags_def TagsClient_def readTagsForResource_def
      api_run seq_run get_rd_def put_rd_def split: sum.splits)


text \<open>
  C6. On the Read path of \<^verbatim>\<open>vsphere_vapp_container\<close> (the client check, the lookup of the
  container, the tag read if one is made, and the property read having succeeded, and the
  schema layer accepting what is set) the ResourceConfigSpec read from the container is
  flattened field by field: \<open>cpu_reservation\<close>, \<open>cpu_expandable\<close>, \<open>cpu_limit\<close>,
  \<open>cpu_shares\<close> and \<open>cpu_share_level\<close> hold CpuAllocation's Reservation,
  ExpandableReservation, Limit, Shares.Shares and Shares.Level, the \<open>memory_\<close> keys hold the
  same fields of MemoryAllocation, and Read returns no error. (\<open>flatten_accepted\<close> is the
  same statement for \<^verbatim>\<open>flattenVAppContainerConfigSpec\<close> alone.)
\<close>

theorem C6_Read_flattens:
  assumes "ans_ValidateVirtualCenter (remote s) = None"
    and "ans_Finder_ObjectReference (remote s)
           \<lparr>Type = ''VirtualApp'', Value = ResourceId (rd s)\<rparr> = Inr (Is_VirtualApp va)"
    and "ans_readTagsForResource (remote s) va (rd s) = Inr d1"
    and "ans_Properties (remote s) (Reference va) = Inr vaProps"
    and "\<And>k v. ans_Set (remote s) k v = None"
  shows "(let d' = rd (snd (resourceVSphereVAppContainerRead s));
              obj = Config (ResourcePool vaProps)
          in fst (resourceVSphereVAppContainerRead s) = Inr ()
           \<and> attrs d' ''cpu_reservation'' = Some (Reservation (CpuAllocation obj))
           \<and> attrs d' ''cpu_expandable'' = Some (ExpandableReservation (CpuAllocation obj))
           \<and> attrs d' ''cpu_limit'' = Some (Limit (CpuAllocation obj))
           \<and> attrs d' ''cpu_shares'' = Some (SharesInfo.Shares (Shares (CpuAllocation obj)))
           \<and> attrs d' ''cpu_share_level'' = Some (Level (Shares (CpuAllocation obj)))
           \<and> attrs d' ''memory_reservation'' = Some (Reservation (MemoryAllocation obj))
           \<and> attrs d' ''memory_expandable'' = Some (ExpandableReservation (MemoryAllocation obj))
           \<and> attrs d' ''memory_limit'' = Some (Limit (MemoryAllocation obj))
           \<and> attrs d' ''memory_shares'' = Some (SharesInfo.Shares (Shares (MemoryAllocation obj)))
           \<and> attrs d' ''memory_share_level'' = Some (Level (Shares (MemoryAllocation obj))))"
  using assms
  by (simp add: resourceVSphereVAppContainerRead_def seq_run Client_run get_rd_def FromID_run
      ReadTags_run Set_attr_accepted Properties_run flatten_accepted Let_def
      split: sum.splits)


theorem C6_Read_flattens_witness:
  "fst (resourceVSphereVAppContainerRead (start (inventory (vapp_props [] [])) ''vapp-1'' []))
     = Inr ()
   \<and> attrs (rd (snd (resourceVSphereVAppContainerRead
        (start (inventory (vapp_props [] [])) ''vapp-1'' [])))) ''cpu_reservation''
     = Some (VInt 100)
   \<and> attrs (rd (snd (resourceVSphereVAppContainerRead
        (start (inventory (vapp_props [] [])) ''vapp-1'' [])))) ''cpu_share_level''
     = Some (VString ''normal'')
   \<and> attrs (rd (snd (resourceVSphereVAppContainerRead
        (start (inventory (vapp_props [] [])) ''vapp-1'' [])))) ''memory_reservation''
     = Some (VInt 512)
   \<and> attrs (rd (snd (resourceVSphereVAppContainerRead
        (start (inventory (vapp_props [] [])) ''vapp-1'' [])))) ''memory_limit''
     = Some (VInt (- 1))"
proof -
  let ?s = "start (inventory (vapp_props [] [])) ''vapp-1'' []"
  have h1: "ans_ValidateVirtualCenter (remote ?s) = None"
    by (simp add: example_defs)
  have h2: "ans_Finder_ObjectReference (remote ?s)
           \<lparr>Type = ''VirtualApp'', Value = ResourceId (rd ?s)\<rparr> = Inr (Is_VirtualApp vapp_obj)"
    by (simp add: example_defs)
  have h3: "ans_readTagsForResource (remote ?s) vapp_obj (rd ?s) = Inr (rd ?s)"
    by (simp add: example_defs)
  have h4: "ans_Properties (remote ?s) (Reference vapp_obj) = Inr (vapp_props [] [])"
    by (simp add: example_defs)
  have h5: "\<And>k v. ans_Set (remote ?s) k v = None"
    by (simp add: example_defs)
  from C6_Read_flattens [OF h1 h2 h3 h4 h5] show ?thesis
    by (simp add: Let_def vapp_props_def allocation_def)
qed


subsection \<open>Create of vsphere_vapp_container\<close>

lemma Split_no_sep: "sep \<notin> set s \<Longrightarrow> Split s sep = [s]"
  by (induction s) auto

lemma Split_sep: "sep \<notin> set a \<Longrightarrow> Split (a @ sep # b) sep = a # Split b sep"
  by (induction a) (auto simp: Split_no_sep)

lemma Split_not_Nil: "Split s sep \<noteq> []"
  by (induction s) (auto split: list.splits)

lemma Split_path: "CHR ''/'' \<notin> set dc \<Longrightarrow> Split (''/'' @ dc @ ''/'' @ rest) (CHR ''/'') ! 1 = dc"
  using Split_sep [of "CHR ''/''" "[]" "dc @ ''/'' @ rest"] Split_sep [of "CHR ''/''" dc rest]
  by simp

lemma Split_path_length:
  "CHR ''/'' \<notin> set dc \<Longrightarrow> 1 < length (Split (''/'' @ dc @ ''/'' @ rest) (CHR ''/''))"
  using Split_sep [of "CHR ''/''" "[]" "dc @ ''/'' @ rest"] Split_sep [of "CHR ''/''" dc rest]
  by simp

lemma resourcepool_FromID_run:
  "resourcepool_FromID i s =
     (case ans_resourcepool_FromID (remote s) i of
        Inl err \<Rightarrow> (Inl (Error err), s\<lparr>calls := calls s @ [(Call_resourcepool_FromID i, Some err)]\<rparr>)
      | Inr p \<Rightarrow> (Inr p, s\<lparr>calls := calls s @ [(Call_resourcepool_FromID i, None)]\<rparr>))"
  by (simp add: resourcepool_FromID_def api_run)

lemma getDatacenter_run:
  "getDatacenter n s =
     (case ans_getDatacenter (remote s) n of
        Inl err \<Rightarrow> (Inl (Error err), s\<lparr>calls := calls s @ [(Call_getDatacenter n, Some err)]\<rparr>)
      | Inr p \<Rightarrow> (Inr p, s\<lparr>calls := calls s @ [(Call_getDatacenter n, None)]\<rparr>))"
  by (simp add: getDatacenter_def api_run)

lemma seq_assoc: "seq (seq m f) g = seq m (\<lambda>x. seq (f x) g)"
  by (rule ext) (simp add: seq_run split: sum.splits prod.splits)

lemma seq_Inr: "m s = (Inr x, s') \<Longrightarrow> seq m f s = f x s'"
  by (simp add: seq_run)

lemma seq_Inl: "m s = (Inl e, s') \<Longrightarrow> seq m f s = (Inl e, s')"
  by (simp add: seq_run)

lemma seq_get_rd: "seq get_rd f s = f (rd s) s"
  by (simp add: seq_run get_rd_def)

lemma seq_ret: "seq (ret x) f = f x"
  by (rule ext) (simp add: seq_run ret_def)

lemma ContainerCreate_no_folder:
  assumes "ans_ValidateVirtualCenter (remote s) = None"
    and "ans_resourcepool_FromID (remote s) (Get_string (rd s) ''parent_resource_pool_id'') = Inr prp"
    and "Get_string (rd s) ''parent_folder'' = []"
  shows "resourceVSphereVAppContainerCreate s =
     seq (seq (index (Split (InventoryPath prp) (CHR ''/'')) 1) (\<lambda>name.
          seq (getDatacenter name) (\<lambda>dc.
          folder_FromPath [] VSphereFolderTypeVM dc))) (\<lambda>f.
     seq (vappcontainer_Create prp (Get_string (rd s) ''name'')
            (ans_expandResourcePoolConfigSpec (remote s) (rd s)) \<lparr>EntityConfig = []\<rparr> f) (\<lambda>va.
     seq (resourceVSphereVAppContainerApplyTags va) (\<lambda>u.
     SetId (Value (Reference va)))))
       (s\<lparr>calls := calls s @
          [(Call_ValidateVirtualCenter, None),
           (Call_resourcepool_FromID (Get_string (rd s) ''parent_resource_pool_id''), None)]\<rparr>)"
proof -
  let ?s1 = "s\<lparr>calls := calls s @ [(Call_ValidateVirtualCenter, None)]\<rparr>"
  let ?s2 = "s\<lparr>calls := calls s @
          [(Call_ValidateVirtualCenter, None),
           (Call_resourcepool_FromID (Get_string (rd s) ''parent_resource_pool_id''), None)]\<rparr>"
  have 1: "\<And>f. seq resourceVSphereVAppContainerClient f s = f () ?s1"
    by (simp add: seq_run Client_run assms(1))
  have 2: "\<And>f. seq (resourcepool_FromID (Get_string (rd s) ''parent_resource_pool_id'')) f ?s1
      = f prp ?s2"
    by (simp add: seq_run resourcepool_FromID_run assms(2))
  have 3: "\<And>f. seq expandVAppContainerConfigSpec f ?s2
      = f (ans_expandResourcePoolConfigSpec (remote s) (rd s)) ?s2"
    by (simp add: seq_run expandVAppContainerConfigSpec_def expandResourcePoolConfigSpec_def)
  show ?thesis
    unfolding resourceVSphereVAppContainerCreate_def
    by (simp add: 1 seq_get_rd 2 3 GetOk_string_def assms(3))
qed

lemma ContainerCreate_datacenter:
  assumes "ans_ValidateVirtualCenter (remote s) = None"
    and "ans_resourcepool_FromID (remote s) (Get_string (rd s) ''parent_resource_pool_id'') = Inr prp"
    and "Get_string (rd s) ''parent_folder'' = []"
    and "InventoryPath prp = ''/'' @ dc @ ''/'' @ rest"
    and "CHR ''/'' \<notin> set dc"
  shows "resourceVSphereVAppContainerCreate s =
     seq (getDatacenter dc) (\<lambda>datacenter.
     seq (folder_FromPath [] VSphereFolderTypeVM datacenter) (\<lambda>f.
     seq (vappcontainer_Create prp (Get_string (rd s) ''name'')
            (ans_expandResourcePoolConfigSpec (remote s) (rd s)) \<lparr>EntityConfig = []\<rparr> f) (\<lambda>va.
     seq (resourceVSphereVAppContainerApplyTags va) (\<lambda>u.
     SetId (Value (Reference va))))))
       (s\<lparr>calls := calls s @
          [(Call_ValidateVirtualCenter, None),
           (Call_resourcepool_FromID (Get_string (rd s) ''parent_resource_pool_id''), None)]\<rparr>)"
proof -
  have "index (Split (InventoryPath prp) (CHR ''/'')) 1 = ret dc"
    using Split_path [OF assms(5), of rest] Split_path_length [OF assms(5), of rest]
    by (simp add: index_def assms(4))
  then show ?thesis
    unfolding ContainerCreate_no_folder [OF assms(1-3)]
    by (simp add: seq_assoc seq_ret)
qed



lemma folder_FromPath_run:
  "folder_FromPath path ft dc s =
     (case ans_folder_FromPath (remote s) path ft dc of
        Inl err \<Rightarrow> (Inl (Error err), s\<lparr>calls := calls s @ [(Call_folder_FromPath path ft dc, Some err)]\<rparr>)
      | Inr f \<Rightarrow> (Inr f, s\<lparr>calls := calls s @ [(Call_folder_FromPath path ft dc, None)]\<rparr>))"
  by (simp add: folder_FromPath_def api_run)

lemma Create_run:
  "vappcontainer_Create va name resSpec vSpec folder s =
     (case ans_CreateVApp (remote s) va name resSpec vSpec folder of
        Inl err \<Rightarrow> (Inl (Error err),
          s\<lparr>calls := calls s @ [(Call_CreateVApp va name resSpec vSpec folder, Some err)]\<rparr>)
      | Inr nva \<Rightarrow> (Inr nva,
          s\<lparr>calls := calls s @ [(Call_CreateVApp va name resSpec vSpec folder, None)]\<rparr>))"
  by (simp add: vappcontainer_Create_def api_run)

lemma ApplyTags_run:
  "resourceVSphereVAppContainerApplyTags va s =
     (case ans_tagsClientIfDefined (remote s) of
        Inl err \<Rightarrow> (Inl (Error err), s\<lparr>calls := calls s @ [(Call_tagsClientIfDefined, Some err)]\<rparr>)
      | Inr None \<Rightarrow> (Inr (), s\<lparr>calls := calls s @ [(Call_tagsClientIfDefined, None)]\<rparr>)
      | Inr (Some c) \<Rightarrow>
          ((case ans_processTagDiff (remote s) va of Some err \<Rightarrow> Inl (Error err) | None \<Rightarrow> Inr ()),
           s\<lparr>calls := calls s @ [(Call_tagsClientIfDefined, None),
                                  (Call_processTagDiff va, ans_processTagDiff (remote s) va)]\<rparr>))"
  by (simp add: resourceVSphereVAppContainerApplyTags_def tagsClientIfDefined_def
      processTagDiff_def seq_run api_run ret_def status_def split: sum.splits option.splits)

subsection \<open>Renamings\<close>






lemma ren_val_simps [simp]:
  "ren_val f (VString s) = VString (f s)"
  "ren_val f (VInt i) = VInt i"
  "ren_val f (VBool b) = VBool b"
  "ren_val f VNil = VNil"
  by (simp_all add: ren_val_def)



lemma ren_failure_simps [simp]:
  "ren_failure f (Error err) = Error (ren_error f err)"
  "ren_failure f (Panic p) = Panic p"
  by (simp_all add: ren_failure_def)

lemma ren_trace_append [simp]: "ren_trace f (t1 @ t2) = ren_trace f t1 @ ren_trace f t2"
  by (simp add: ren_trace_def)

lemma ren_attrs_upd [simp]: "ren_attrs f (m(k \<mapsto> v)) = (ren_attrs f m)(k \<mapsto> ren_val f v)"
  by (rule ext) (simp add: ren_attrs_def)

lemma bool_ptr_val_ren [simp]: "ren_val f (bool_ptr_val p) = bool_ptr_val p"
  by (simp add: bool_ptr_val_def split: option.splits)







lemma by_renI: "x' = rx x \<Longrightarrow> by_ren rx x x'"
  by (simp add: by_ren_def)



lemma related_result_Inl [simp]:
  "related_result f R (Inl e) r' \<longleftrightarrow> r' = Inl (ren_failure f e)"
  by (simp add: related_result_def)

lemma related_result_Inr [simp]:
  "related_result f R (Inr x) r' \<longleftrightarrow> (\<exists>x'. r' = Inr x' \<and> R x x')"
  by (cases r') (simp_all add: related_result_def)

subsection \<open>Operations that commute with a renaming\<close>

lemma commutesI:
  assumes "\<And>s t. related f I s t \<Longrightarrow>
     related_result f R (fst (m s)) (fst (m' t)) \<and> related f I (snd (m s)) (snd (m' t))"
  shows "commutes f I R m m'"
  using assms by (simp add: commutes_def)










lemma commutes_api:
  assumes "c' = ren_call f c"
    and "\<And>r r'. same_answers f r r' \<Longrightarrow> ask' r' = map_sum (ren_error f) rx (ask r)"
  shows "commutes f I (by_ren rx) (api c ask) (api c' ask')"
proof (rule commutesI)
  fix s t
  assume st: "related f I s t"
  then have "ask' (remote t) = map_sum (ren_error f) rx (ask (remote s))"
    using assms(2) by (simp add: related_def)
  with st assms(1) show "related_result f (by_ren rx) (fst (api c ask s)) (fst (api c' ask' t))
      \<and> related f I (snd (api c ask s)) (snd (api c' ask' t))"
    by (cases "ask (remote s)")
       (simp_all add: api_def related_def by_ren_def ren_trace_def)
qed








subsection \<open>Package vappcontainer and the helpers\<close>












lemma commutes_resourcepool_FromID:
  "commutes f I (by_ren (ren_object f)) (resourcepool_FromID i) (resourcepool_FromID (f i))"
  unfolding resourcepool_FromID_def
  by (rule commutes_api) (simp_all add: ren_call_def same_answers_def)


lemma commutes_folder_FromID:
  "commutes f I (by_ren (ren_object f)) (folder_FromID i) (folder_FromID (f i))"
  unfolding folder_FromID_def
  by (rule commutes_api) (simp_all add: ren_call_def same_answers_def)

lemma commutes_folder_FromPath:
  "commutes f I (by_ren (ren_object f)) (folder_FromPath path ft dc)
     (folder_FromPath (f path) ft (ren_object f dc))"
  unfolding folder_FromPath_def
  by (rule commutes_api) (simp_all add: ren_call_def same_answers_def)

lemma commutes_getDatacenter:
  "commutes f I (by_ren (ren_object f)) (getDatacenter n) (getDatacenter (f n))"
  unfolding getDatacenter_def
  by (rule commutes_api) (simp_all add: ren_call_def same_answers_def)








subsection \<open>The functions of the two resources\<close>
















lemma IsManagedObjectNotFoundError_ren [simp]:
  "IsManagedObjectNotFoundError (ren_error f err) = IsManagedObjectNotFoundError err"
  by (cases err) (simp_all add: IsManagedObjectNotFoundError_def)

























subsection \<open>Parsing\<close>









subsection \<open>The handlers of the two resources\<close>

lemma status_Inr [simp]: "status r = Inr u \<longleftrightarrow> r = None"
  by (simp add: status_def split: option.splits)

lemma EntityUpdate_is_ContainerUpdate:
  "resourceVSphereVAppEntityUpdate = resourceVSphereVAppContainerUpdate"
  by (simp add: resourceVSphereVAppEntityUpdate_def resourceVSphereVAppContainerUpdate_def)

lemma EntityImport_run: "resourceVSphereVAppEntityImport s = (Inr [], s)"
  by (simp add: resourceVSphereVAppEntityImport_def ret_def)


lemma MoveIntoResourcePool_run:
  "resourcepool_MoveIntoResourcePool p ref s =
     ((case ans_resourcepool_MoveIntoResourcePool (remote s) p ref of
         Some err \<Rightarrow> Inl (Error err) | None \<Rightarrow> Inr ()),
      s\<lparr>calls := calls s @ [(Call_resourcepool_MoveIntoResourcePool p ref,
                              ans_resourcepool_MoveIntoResourcePool (remote s) p ref)]\<rparr>)"
  by (simp add: resourcepool_MoveIntoResourcePool_def api_run status_def split: option.splits)

lemma update_specs_append: "update_specs (t1 @ t2) = update_specs t1 @ update_specs t2"
  by (induction t1 rule: update_specs.induct) simp_all

lemma only_sendsI:
  assumes "\<And>s. \<exists>t. calls (snd (m s)) = calls s @ t \<and> list_all P (update_specs t)"
  shows "only_sends P m"
  unfolding only_sends_def
proof
  fix s
  from assms [of s] obtain t where "calls (snd (m s)) = calls s @ t" "list_all P (update_specs t)"
    by blast
  then show "calls (snd (m s)) = calls s @ new_calls s (snd (m s))
        \<and> list_all P (update_specs (new_calls s (snd (m s))))"
    by (simp add: new_calls_def)
qed

lemma only_sends_silent: "(\<And>s. calls (snd (m s)) = calls s) \<Longrightarrow> only_sends P m"
  by (rule only_sendsI) simp

lemma only_sends_api:
  "(\<And>va spec. c = Call_UpdateConfig va spec \<Longrightarrow> P spec) \<Longrightarrow> only_sends P (api c ask)"
  by (rule only_sendsI) (cases c; auto simp: api_run split: sum.splits)

lemma only_sends_seq:
  assumes "only_sends P m" and "\<And>x. only_sends P (f x)"
  shows "only_sends P (seq m f)"
proof (rule only_sendsI)
  fix s
  obtain r s1 where m: "m s = (r, s1)" by force
  from assms(1) have 1: "calls s1 = calls s @ new_calls s s1"
    "list_all P (update_specs (new_calls s s1))"
    unfolding only_sends_def using m by (auto dest!: spec [of _ s])
  show "\<exists>t. calls (snd (seq m f s)) = calls s @ t \<and> list_all P (update_specs t)"
  proof (cases r)
    case (Inl e)
    with m 1 show ?thesis by (auto simp: seq_run)
  next
    case (Inr x)
    from assms(2) [of x] have 2: "calls (snd (f x s1)) = calls s1 @ new_calls s1 (snd (f x s1))"
      "list_all P (update_specs (new_calls s1 (snd (f x s1))))"
      unfolding only_sends_def by (auto dest!: spec [of _ s1])
    from 1(1) 2(1) have "calls (snd (f x s1))
        = calls s @ (new_calls s s1 @ new_calls s1 (snd (f x s1)))"
      by simp
    moreover from 1(2) 2(2) have "list_all P
        (update_specs (new_calls s s1 @ new_calls s1 (snd (f x s1))))"
      by (simp add: update_specs_append)
    ultimately show ?thesis
      using m Inr by (auto simp: seq_run)
  qed
qed

lemma only_sends_basic:
  "only_sends P (ret x)"
  "only_sends P (do_panic p)"
  "only_sends P get_rd"
  "only_sends P (assert_string ov)"
  by (rule only_sends_silent;
      simp add: ret_def do_panic_def get_rd_def assert_string_def split: option.splits val.splits)+

lemma ContainerUpdate_only_empty:
  "only_sends (\<lambda>spec. spec = \<lparr>EntityConfig = []\<rparr>) resourceVSphereVAppContainerUpdate"
  unfolding resourceVSphereVAppContainerUpdate_def resourceVSphereVAppContainerClient_def
    vappcontainer_FromID_def resourceVSphereVAppContainerApplyTags_def tagsClientIfDefined_def
    processTagDiff_def resourcepool_MoveIntoResourcePool_def vappcontainer_Update_def
  by (auto intro!: only_sends_seq only_sends_api only_sends_basic
      simp: GetChange_def Let_def split: object_Reference.splits option.splits)

lemma ContainerUpdate_specs:
  "list_all (\<lambda>spec. spec = \<lparr>EntityConfig = []\<rparr>)
     (update_specs (new_calls s (snd (resourceVSphereVAppContainerUpdate s))))"
  using ContainerUpdate_only_empty unfolding only_sends_def by blast


lemmas handler_runs = runs api_run resourcepool_FromID_run getDatacenter_run folder_FromPath_run
  Create_run ApplyTags_run MoveIntoResourcePool_run ReadTags_run ContainerDelete_run
  ValidateEmpty_run Delete_run Find_run

text \<open>
  C10. Both resources bind Create, Read, Update and Delete and a state importer, but two of
  the functions bound for \<^verbatim>\<open>vsphere_vapp_entity\<close> do not perform their operation.

  The Update handler is the text of the container's Update. The resource it is given has
  the ID that the entity's own Create composes, "vapp-1:vm-7"; the container vapp-1 holds
  the records of vm-3 and vm-7, the one of vm-7 with start order 1, and the configuration
  asks for start order 2. Update asks the finder for a vApp whose ID is the whole string
  "vapp-1:vm-7", gets the not found error and returns it: no UpdateConfig call is made.
  Read and Delete, given the same resource, reach the container vapp-1 and the record of
  vm-7. On a remote side whose finder answers that lookup with the vApp, Update returns no
  error and has sent one config spec, the empty one: the start order of the configuration
  does not reach the container either way.

  The importer returns no resource data and no error and makes no call, where the
  container's importer resolves the path it is given and returns the resource with its ID.
\<close>

theorem C10_entity_Update_sends_no_entity:
  "fst (Create resourceVSphereVAppEntity (start (inventory (vapp_props [] [])) [] entity_config))
     = Inr ()
   \<and> ResourceId (rd (snd (Create resourceVSphereVAppEntity
        (start (inventory (vapp_props [] [])) [] entity_config)))) = ''vapp-1:vm-7''
   \<and> Update resourceVSphereVAppEntity
        (start (inventory (vapp_props []
           [entity (Some (vm_ref ''vm-3'')) 5, entity (Some (vm_ref ''vm-7'')) 1]))
           ''vapp-1:vm-7'' entity_config)
     = (Inl (Error (ManagedObjectNotFound ''vapp-1:vm-7'')),
        (start (inventory (vapp_props []
           [entity (Some (vm_ref ''vm-3'')) 5, entity (Some (vm_ref ''vm-7'')) 1]))
           ''vapp-1:vm-7'' entity_config)
        \<lparr>calls :=
           [(Call_ValidateVirtualCenter, None),
            (Call_Finder_ObjectReference \<lparr>Type = ''VirtualApp'', Value = ''vapp-1:vm-7''\<rparr>,
             Some (ManagedObjectNotFound ''vapp-1:vm-7''))]\<rparr>)
   \<and> fst (Read resourceVSphereVAppEntity
        (start (inventory (vapp_props []
           [entity (Some (vm_ref ''vm-3'')) 5, entity (Some (vm_ref ''vm-7'')) 1]))
           ''vapp-1:vm-7'' entity_config))
     = Inr ()
   \<and> attrs (rd (snd (Read resourceVSphereVAppEntity
        (start (inventory (vapp_props []
           [entity (Some (vm_ref ''vm-3'')) 5, entity (Some (vm_ref ''vm-7'')) 1]))
           ''vapp-1:vm-7'' entity_config)))) ''start_order''
     = Some (VInt 1)
   \<and> update_specs (calls (snd (Delete resourceVSphereVAppEntity
        (start (inventory (vapp_props []
           [entity (Some (vm_ref ''vm-3'')) 5, entity (Some (vm_ref ''vm-7'')) 1]))
           ''vapp-1:vm-7'' entity_config))))
     = [\<lparr>EntityConfig = [entity (Some (vm_ref ''vm-3'')) 5]\<rparr>]
   \<and> Update resourceVSphereVAppEntity
        (start ((inventory (vapp_props []
           [entity (Some (vm_ref ''vm-3'')) 5, entity (Some (vm_ref ''vm-7'')) 1]))
             \<lparr>ans_Finder_ObjectReference := (\<lambda>ref. Inr (Is_VirtualApp vapp_obj))\<rparr>)
           ''vapp-1:vm-7'' entity_config)
     = (Inr (),
        (start ((inventory (vapp_props []
           [entity (Some (vm_ref ''vm-3'')) 5, entity (Some (vm_ref ''vm-7'')) 1]))
             \<lparr>ans_Finder_ObjectReference := (\<lambda>ref. Inr (Is_VirtualApp vapp_obj))\<rparr>)
           ''vapp-1:vm-7'' entity_config)
        \<lparr>calls :=
           [(Call_ValidateVirtualCenter, None),
            (Call_Finder_ObjectReference \<lparr>Type = ''VirtualApp'', Value = ''vapp-1:vm-7''\<rparr>, None),
            (Call_tagsClientIfDefined, None),
            (Call_UpdateConfig vapp_obj \<lparr>EntityConfig = []\<rparr>, None)]\<rparr>)
   \<and> Importer_State resourceVSphereVAppEntity
        (start (inventory (vapp_props [] [])) ''/dc1/vm/vapp-1'' [])
     = (Inr [], start (inventory (vapp_props [] [])) ''/dc1/vm/vapp-1'' [])
   \<and> fst (Importer_State resourceVSphereVAppContainer
        (start (inventory (vapp_props [] [])) ''/dc1/vm/vapp-1'' []))
     = Inr [\<lparr>ResourceId = ''vapp-1'', attrs = Map.empty, old_attrs = Map.empty\<rparr>]"
proof -
  let ?inv = "inventory (vapp_props [] [])"
  let ?inv7 = "inventory (vapp_props []
           [entity (Some (vm_ref ''vm-3'')) 5, entity (Some (vm_ref ''vm-7'')) 1])"
  let ?e = "start ?inv7 ''vapp-1:vm-7'' entity_config"
  let ?any = "start (?inv7\<lparr>ans_Finder_ObjectReference := (\<lambda>ref. Inr (Is_VirtualApp vapp_obj))\<rparr>)
           ''vapp-1:vm-7'' entity_config"
  have create: "fst (resourceVSphereVAppEntityCreate (start ?inv [] entity_config)) = Inr ()"
    "ResourceId (rd (snd (resourceVSphereVAppEntityCreate (start ?inv [] entity_config))))
       = ''vapp-1:vm-7''"
    by (simp_all add: resourceVSphereVAppEntityCreate_def handler_runs example_defs getters)
  have update: "resourceVSphereVAppEntityUpdate ?e
     = (Inl (Error (ManagedObjectNotFound ''vapp-1:vm-7'')),
        ?e\<lparr>calls :=
           [(Call_ValidateVirtualCenter, None),
            (Call_Finder_ObjectReference \<lparr>Type = ''VirtualApp'', Value = ''vapp-1:vm-7''\<rparr>,
             Some (ManagedObjectNotFound ''vapp-1:vm-7''))]\<rparr>)"
    by (simp add: resourceVSphereVAppEntityUpdate_def handler_runs example_defs)
  have read: "fst (resourceVSphereVAppEntityRead ?e) = Inr ()"
    "attrs (rd (snd (resourceVSphereVAppEntityRead ?e))) ''start_order'' = Some (VInt 1)"
    by (simp_all add: resourceVSphereVAppEntityRead_def flattenVAppEntityConfigSpec_def
        vappcontainer_EntityFromKey_def Set_attr_def handler_runs example_defs)
  have delete: "update_specs (calls (snd (resourceVSphereVAppEntityDelete ?e)))
     = [\<lparr>EntityConfig = [entity (Some (vm_ref ''vm-3'')) 5]\<rparr>]"
    by (simp add: resourceVSphereVAppEntityDelete_def handler_runs example_defs getters)
  have update_any: "resourceVSphereVAppEntityUpdate ?any
     = (Inr (),
        ?any\<lparr>calls :=
           [(Call_ValidateVirtualCenter, None),
            (Call_Finder_ObjectReference \<lparr>Type = ''VirtualApp'', Value = ''vapp-1:vm-7''\<rparr>, None),
            (Call_tagsClientIfDefined, None),
            (Call_UpdateConfig vapp_obj \<lparr>EntityConfig = []\<rparr>, None)]\<rparr>)"
    by (simp add: resourceVSphereVAppEntityUpdate_def GetChange_def handler_runs example_defs)
  have import: "resourceVSphereVAppEntityImport (start ?inv ''/dc1/vm/vapp-1'' [])
     = (Inr [], start ?inv ''/dc1/vm/vapp-1'' [])"
    "fst (resourceVSphereVAppContainerImport (start ?inv ''/dc1/vm/vapp-1'' []))
     = Inr [\<lparr>ResourceId = ''vapp-1'', attrs = Map.empty, old_attrs = Map.empty\<rparr>]"
    by (simp_all add: resourceVSphereVAppEntityImport_def resourceVSphereVAppContainerImport_def
        vappcontainer_FromPath_def handler_runs example_defs)
  have bound:
    "Create resourceVSphereVAppEntity = resourceVSphereVAppEntityCreate"
    "Read resourceVSphereVAppEntity = resourceVSphereVAppEntityRead"
    "Update resourceVSphereVAppEntity = resourceVSphereVAppEntityUpdate"
    "Delete resourceVSphereVAppEntity = resourceVSphereVAppEntityDelete"
    "Importer_State resourceVSphereVAppEntity = resourceVSphereVAppEntityImport"
    "Importer_State resourceVSphereVAppContainer = resourceVSphereVAppContainerImport"
    by (simp_all add: resourceVSphereVAppContainer_def resourceVSphereVAppEntity_def)
  show ?thesis
    unfolding bound
    by (intro conjI create update read delete update_any import)
qed


subsection \<open>Errors of calls\<close>



















































end
